theory Spec2Isabelle
  imports Complex_Main "HOL-Library.Log_Nat"
begin

section \<open>Python values and errors shared by both scripts\<close>

text \<open>
  Both scripts are Python. An exception that leaves the script is a value \<open>Inl e\<close> of
  the result type \<open>py_error + 'a\<close>. Python \<open>float\<close>s are modelled by \<open>real\<close>: the claims
  verified here are about which values flow into which call and about the guards around
  divisions, not about rounding.
\<close>

datatype py_error =
    ZeroDivisionError
  | OverflowError
  | CvError
  | ValueError
  | OSError
  | LinAlgError
  | TypeError

text \<open>Python's \<open>a / b\<close> on numbers: a zero divisor raises.\<close>

definition py_truediv :: "real \<Rightarrow> real \<Rightarrow> py_error + real" where
  "py_truediv a b = (if b = 0 then Inl ZeroDivisionError else Inr (a / b))"

section \<open>The SSIM snippet (DataCollect/utils/ssim.py)\<close>

text \<open>
  The snippet is a straight-line module body. The libraries it calls are parameters of
  the model, collected in a record:
  \<^item> \<open>imread\<close> is \<open>cv2.imread\<close>, which returns \<open>None\<close> for a path it cannot read
    (the flag \<open>1\<close> of the second call is the default \<open>IMREAD_COLOR\<close> of the first);
  \<^item> \<open>cvtColor\<close> is \<open>cv2.cvtColor(_, cv2.COLOR_BGR2GRAY)\<close>, which raises on \<open>None\<close>;
  \<^item> \<open>ssim\<close> is \<open>skimage.metrics.structural_similarity(_, _, full=True)\<close>, returning the
    score and the difference image, or raising (images of different shapes);
  \<^item> \<open>listdir\<close> is the result of \<open>os.listdir\<close> for a directory path.
  What the script does to the outside world is recorded as a list of events, in order.
\<close>

record ('img, 'gray, 'diff) ssim_env =
  imread :: "string \<Rightarrow> 'img option"
  cvtColor :: "'img \<Rightarrow> 'gray"
  ssim :: "'gray \<Rightarrow> 'gray \<Rightarrow> py_error + (real \<times> 'diff)"
  listdir :: "string \<Rightarrow> py_error + string list"

datatype ssim_event =
    Imread string
  | Listdir string
  | PrintSSIM real
  | PrintValue real

definition path :: string where
  "path = ''black_toy''"

text \<open>\<open>cv2.cvtColor\<close> applied to the result of \<open>cv2.imread\<close>.\<close>

definition cvt_gray :: "('img, 'gray, 'diff) ssim_env \<Rightarrow> 'img option \<Rightarrow> py_error + 'gray" where
  "cvt_gray env img = (case img of None \<Rightarrow> Inl CvError | Some im \<Rightarrow> Inr (cvtColor env im))"

text \<open>
  Lines 43 to 50: the loop over the directory listing. Each iteration reads the generated
  and the reference image of the current name, then calls \<open>ssim(grayA, grayB, full=True)\<close>
  and appends the score. It returns the events and the list \<open>total\<close> (here \<open>total_list\<close>).
\<close>

fun score_loop :: "('img, 'gray, 'diff) ssim_env \<Rightarrow> 'gray \<Rightarrow> 'gray \<Rightarrow> string list \<Rightarrow>
    real list \<Rightarrow> ssim_event list \<times> (py_error + real list)" where
  "score_loop env grayA grayB [] total_list = ([], Inr total_list)"
| "score_loop env grayA grayB (image_name # images) total_list =
     (let generated = path @ ''/test_output/'' @ image_name;
          original = path @ ''/images/'' @ image_name;
          evs = [Imread generated, Imread original];
          generated_img = imread env generated;
          original_img = imread env original
      in case ssim env grayA grayB of
           Inl e \<Rightarrow> (evs, Inl e)
         | Inr (score, diff) \<Rightarrow>
             (case score_loop env grayA grayB images (total_list @ [score]) of
                (evs', r) \<Rightarrow> (evs @ evs', r)))"

text \<open>Line 51: \<open>print(sum(total)/len(total))\<close>.\<close>

definition print_average :: "real list \<Rightarrow> ssim_event list \<times> (py_error + unit)" where
  "print_average total_list =
     (case py_truediv (sum_list total_list) (real (length total_list)) of
        Inl e \<Rightarrow> ([], Inl e)
      | Inr v \<Rightarrow> ([PrintValue v], Inr ()))"

text \<open>Lines 41 to 51, given the two grayscale images of lines 29 and 30.\<close>

definition directory_average :: "('img, 'gray, 'diff) ssim_env \<Rightarrow> 'gray \<Rightarrow> 'gray \<Rightarrow>
    ssim_event list \<times> (py_error + unit)" where
  "directory_average env grayA grayB =
     (case listdir env (path @ ''/test_output'') of
        Inl e \<Rightarrow> ([Listdir (path @ ''/test_output'')], Inl e)
      | Inr images \<Rightarrow>
          (case score_loop env grayA grayB images [] of
             (evs, Inl e) \<Rightarrow> (Listdir (path @ ''/test_output'') # evs, Inl e)
           | (evs, Inr total_list) \<Rightarrow>
               (case print_average total_list of
                  (evs', r) \<Rightarrow> (Listdir (path @ ''/test_output'') # evs @ evs', r))))"

text \<open>The whole module body, lines 23 to 51.\<close>

definition ssim_script :: "('img, 'gray, 'diff) ssim_env \<Rightarrow> ssim_event list \<times> (py_error + unit)" where
  "ssim_script env =
     (let imageA = imread env ''black_toy/images/564.png'';
          imageB = imread env ''black_toy/test_output/564.png'';
          evs = [Imread ''black_toy/images/564.png'', Imread ''black_toy/test_output/564.png'']
      in case cvt_gray env imageA of
           Inl e \<Rightarrow> (evs, Inl e)
         | Inr grayA \<Rightarrow>
             (case cvt_gray env imageB of
                Inl e \<Rightarrow> (evs, Inl e)
              | Inr grayB \<Rightarrow>
                  (case ssim env grayA grayB of
                     Inl e \<Rightarrow> (evs, Inl e)
                   | Inr (score, diff) \<Rightarrow>
                       (case directory_average env grayA grayB of
                          (evs', r) \<Rightarrow> (evs @ [PrintSSIM score] @ evs', r)))))"

text \<open>
  \<open>imread\<close> and \<open>listdir\<close> look at the same directory tree. When the tree does not change
  while the script runs, the directory \<open>black_toy/test_output\<close> has an entry if the file
  \<open>564.png\<close> in it can be read.
\<close>

definition static_directory :: "('img, 'gray, 'diff) ssim_env \<Rightarrow> bool" where
  "static_directory env =
     (\<forall>images img.
        listdir env (path @ ''/test_output'') = Inr images \<longrightarrow>
        imread env (path @ ''/test_output/564.png'') = Some img \<longrightarrow> images \<noteq> [])"

text \<open>
  What the loop would append if it compared the images it has just read: the score of
  each generated image against the reference image of the same name. This definition
  follows the specification's sentence, not the code, and is used only to compare.
\<close>

fun pairwise_scores :: "('img, 'gray, 'diff) ssim_env \<Rightarrow> string list \<Rightarrow> (py_error + real) list" where
  "pairwise_scores env [] = []"
| "pairwise_scores env (image_name # images) =
     (case (cvt_gray env (imread env (path @ ''/test_output/'' @ image_name)),
            cvt_gray env (imread env (path @ ''/images/'' @ image_name))) of
        (Inr g, Inr r) \<Rightarrow> map_sum id fst (ssim env g r)
      | (Inl e, _) \<Rightarrow> Inl e
      | (_, Inl e) \<Rightarrow> Inl e) # pairwise_scores env images"

section \<open>The driver (NeRF_instant/scripts/run_modify.py): arguments\<close>

text \<open>
  The fields of \<open>args\<close> that the modelled blocks read, with the types \<open>argparse\<close> gives
  them. \<open>default_args\<close> holds the defaults of \<open>parse_args\<close>: it is the value of \<open>args\<close>
  when no option is on the command line. An option of \<open>type=float\<close> accepts every
  finite double and also \<open>inf\<close>, \<open>-inf\<close> and \<open>nan\<close>.
\<close>

datatype py_float = Finite real | PosInf | NegInf | NaN

record args =
  load_snapshot :: string
  test_transforms :: string
  exposure :: py_float
  video_camera_path :: string
  video_camera_smoothing :: bool
  video_fps :: int
  video_n_seconds :: int
  video_render_range :: "int \<times> int"
  video_spp :: int
  video_output :: string
  width :: int
  height :: int
  gui :: bool
  train :: bool
  n_steps :: int
  second_window :: bool
  vr :: bool
  ndi :: bool
  row :: string
  evaluation :: bool
  user_id :: real

definition default_args :: args where
  "default_args =
     \<lparr>load_snapshot = [], test_transforms = [], exposure = Finite 0,
      video_camera_path = [], video_camera_smoothing = False, video_fps = 60,
      video_n_seconds = 1, video_render_range = (-1, -1), video_spp = 8,
      video_output = ''video.mp4'', width = 0, height = 0, gui = False, train = False,
      n_steps = -1, second_window = False, vr = False, ndi = False,
      row = ''c:/Users/camp/Documents/Xinrui Zou/Tool-ROM/no-pivot.rom'',
      evaluation = False, user_id = 0\<rparr>"

text \<open>Lines 170 and 171: \<open>if args.vr: args.gui = True\<close>.\<close>

definition vr_implies_gui :: "args \<Rightarrow> args" where
  "vr_implies_gui a = (if vr a then a\<lparr>gui := True\<rparr> else a)"

text \<open>Python's \<open>x or d\<close> on an integer \<open>x\<close>: zero is falsy.\<close>

definition py_or :: "int \<Rightarrow> int \<Rightarrow> int" where
  "py_or x d = (if x = 0 then d else x)"

section \<open>The driver: the GUI resolution (lines 194 to 201)\<close>

text \<open>
  \<open>sw / 2\<close> on Python integers is true division: CPython returns the double nearest to
  the quotient (ties to even) and raises \<open>OverflowError\<close> when that double would be
  \<open>2 ^ 1024\<close> or more in magnitude; \<open>int\<close> of a double truncates toward zero.
  \<open>round_to_double n\<close> is the integer \<open>n\<close> rounded to 53 significant bits, so the
  double nearest to \<open>n / 2\<close> is half of it.
\<close>

definition round_to_double :: "int \<Rightarrow> int" where
  "round_to_double n =
     (let a = \<bar>n\<bar>; e = bitlen a - 53
      in if e \<le> 0 then n
         else (let p = 2 ^ nat e; q = a div p; r = a mod p;
                   q' = (if p < 2 * r \<or> (2 * r = p \<and> odd q) then q + 1 else q)
               in sgn n * (q' * p)))"

text \<open>\<open>int(n / 2)\<close>.\<close>

definition int_half :: "int \<Rightarrow> py_error + int" where
  "int_half n =
     (let d = round_to_double n
      in if 2 ^ 1025 \<le> \<bar>d\<bar> then Inl OverflowError else Inr (sgn d * (\<bar>d\<bar> div 2)))"

lemma round_to_double_le:
  assumes "\<not> bitlen \<bar>n\<bar> - 53 \<le> 0"
  shows "\<bar>round_to_double n\<bar> \<le> \<bar>n\<bar> + 2 ^ nat (bitlen \<bar>n\<bar> - 53)"
    and "(2::int) ^ nat (bitlen \<bar>n\<bar> - 53) < \<bar>n\<bar>"
proof -
  define a where "a = \<bar>n\<bar>"
  define p :: int where "p = 2 ^ nat (bitlen a - 53)"
  have apos: "0 < a"
    using assms bitlen_eq_zero_iff [of a] by (auto simp: a_def)
  have "2 ^ nat (bitlen a - 1) \<le> a"
    using bitlen_bounds [OF apos] by simp
  moreover have "p < 2 ^ nat (bitlen a - 1)"
    unfolding p_def using assms by (intro power_strict_increasing) (auto simp: a_def)
  ultimately have pa: "p < a" by simp
  have ppos: "0 < p" by (simp add: p_def)
  have "a = a div p * p + a mod p" by simp
  moreover have "0 \<le> a mod p" using ppos by simp
  ultimately have q: "a div p * p \<le> a" by linarith
  have q0: "0 \<le> a div p"
    using apos ppos by (simp add: pos_imp_zdiv_nonneg_iff)
  have "\<bar>round_to_double n\<bar> \<le> (a div p + 1) * p"
    using assms ppos q0
    by (auto simp: round_to_double_def Let_def a_def [symmetric] p_def [symmetric] abs_mult)
  also have "\<dots> \<le> a + p" using q by (simp add: algebra_simps)
  finally show "\<bar>round_to_double n\<bar> \<le> \<bar>n\<bar> + 2 ^ nat (bitlen \<bar>n\<bar> - 53)"
    by (simp add: a_def p_def)
  show "(2::int) ^ nat (bitlen \<bar>n\<bar> - 53) < \<bar>n\<bar>"
    using pa by (simp add: a_def p_def)
qed

lemma int_half_less:
  assumes h: "int_half n = Inr m" and n0: "n \<noteq> 0"
  shows "\<bar>m\<bar> < \<bar>n\<bar>"
proof -
  define d where "d = round_to_double n"
  have m: "m = sgn d * (\<bar>d\<bar> div 2)"
    using h by (auto simp: int_half_def Let_def d_def split: if_splits)
  have "\<bar>m\<bar> = \<bar>sgn d\<bar> * (\<bar>d\<bar> div 2)"
    unfolding m by (simp add: abs_mult)
  also have "\<dots> \<le> \<bar>d\<bar> div 2"
    by (cases "d = 0") (simp_all add: abs_sgn_eq)
  finally have le: "\<bar>m\<bar> \<le> \<bar>d\<bar> div 2" .
  show ?thesis
  proof (cases "bitlen \<bar>n\<bar> - 53 \<le> 0")
    case True
    then have "d = n" by (simp add: d_def round_to_double_def Let_def)
    then show ?thesis using le n0 by linarith
  next
    case False
    have "\<bar>d\<bar> < 2 * \<bar>n\<bar>"
      using round_to_double_le [OF False] by (simp add: d_def)
    then show ?thesis using le by linarith
  qed
qed

text \<open>
  The loop of lines 198 to 200. It returns the resolution handed to \<open>init_window\<close>, or
  the exception raised by a division.
\<close>

function halve_loop :: "int \<Rightarrow> int \<Rightarrow> py_error + int \<times> int" where
  "halve_loop sw sh =
     (if 1920 * 1080 * 4 < sw * sh
      then (case int_half sw of
              Inl e \<Rightarrow> Inl e
            | Inr sw' \<Rightarrow>
                (case int_half sh of
                   Inl e \<Rightarrow> Inl e
                 | Inr sh' \<Rightarrow> halve_loop sw' sh'))
      else Inr (sw, sh))"
  by pat_completeness auto
termination
proof (relation "measure (\<lambda>(sw, sh). nat (\<bar>sw\<bar> + \<bar>sh\<bar>))")
  show "wf (measure (\<lambda>(sw, sh). nat (\<bar>sw\<bar> + \<bar>sh\<bar>)))" by simp
next
  fix sw sh sw' sh' :: int
  assume big: "1920 * 1080 * 4 < sw * sh"
    and sw': "int_half sw = Inr sw'" and sh': "int_half sh = Inr sh'"
  have "sw \<noteq> 0" "sh \<noteq> 0" using big by auto
  then have "\<bar>sw'\<bar> < \<bar>sw\<bar>" "\<bar>sh'\<bar> < \<bar>sh\<bar>"
    using int_half_less [OF sw'] int_half_less [OF sh'] by auto
  then show "((sw', sh'), (sw, sh)) \<in> measure (\<lambda>(sw, sh). nat (\<bar>sw\<bar> + \<bar>sh\<bar>))"
    by simp
qed

text \<open>Lines 196 to 200, from the two command-line values.\<close>

definition gui_resolution :: "int \<Rightarrow> int \<Rightarrow> py_error + int \<times> int" where
  "gui_resolution w h = halve_loop (py_or w 1920) (py_or h 1080)"

declare halve_loop.simps [simp del]

section \<open>The driver: matrices\<close>

text \<open>
  A \<open>numpy\<close> array of floats is a list of rows. The poses of the tracker and the
  calibration constants are 4 by 4 homogeneous transforms; the operations below are the
  \<open>numpy\<close> expressions of the script on arrays of that shape. \<open>np.linalg.inv\<close>, which
  raises \<open>LinAlgError\<close> on a singular matrix, and the trigonometric functions are
  library code: they are parameters of the model.
\<close>

type_synonym mat = "real list list"

record numpy =
  linalg_inv :: "mat \<Rightarrow> py_error + mat"
  np_deg2rad :: "real \<Rightarrow> real"
  np_cos :: "real \<Rightarrow> real"
  np_sin :: "real \<Rightarrow> real"

text \<open>\<open>A @ B\<close>.\<close>

definition matmul :: "mat \<Rightarrow> mat \<Rightarrow> mat" where
  "matmul A B = map (\<lambda>r. map (\<lambda>c. sum_list (map2 (*) r c)) (transpose B)) A"

text \<open>\<open>m[r0:r1, c] *= k\<close>, in place.\<close>

definition scale_rows_col :: "mat \<Rightarrow> nat \<Rightarrow> nat \<Rightarrow> nat \<Rightarrow> real \<Rightarrow> mat" where
  "scale_rows_col m r0 r1 c k =
     map (\<lambda>i. if r0 \<le> i \<and> i < r1 then (m ! i)[c := m ! i ! c * k] else m ! i) [0..<length m]"

text \<open>\<open>m[idx, :]\<close> for a list of row indices: a new array.\<close>

definition take_rows :: "mat \<Rightarrow> nat list \<Rightarrow> mat" where
  "take_rows m idx = map (\<lambda>i. m ! i) idx"

text \<open>\<open>m[r, :] *= k\<close>, in place.\<close>

definition scale_row :: "mat \<Rightarrow> nat \<Rightarrow> real \<Rightarrow> mat" where
  "scale_row m r k = m[r := map (\<lambda>x. x * k) (m ! r)]"

text \<open>\<open>m[:, c]\<close> and \<open>m[:3, :3]\<close>.\<close>

definition column :: "mat \<Rightarrow> nat \<Rightarrow> real list" where
  "column m c = map (\<lambda>r. r ! c) m"

definition last_column :: "mat \<Rightarrow> real list" where
  "last_column m = map last m"

definition top_left3 :: "mat \<Rightarrow> mat" where
  "top_left3 m = map (take 3) (take 3 m)"

text \<open>Lines 38 to 44.\<close>

definition flip_matrix :: "numpy \<Rightarrow> mat \<Rightarrow> py_error + mat" where
  "flip_matrix np m =
     (case linalg_inv np m of
        Inl e \<Rightarrow> Inl e
      | Inr c2w0 \<Rightarrow>
          (let c2w1 = scale_rows_col c2w0 0 3 2 (-1);
               c2w2 = scale_rows_col c2w1 0 3 1 (-1);
               c2w3 = take_rows c2w2 [1, 0, 2, 3];
               c2w4 = scale_row c2w3 2 (-1)
           in Inr c2w4))"

text \<open>Lines 46 to 49.\<close>

definition rotation_matrix_to_vector :: "mat \<Rightarrow> real list" where
  "rotation_matrix_to_vector matrix =
     (let old_vec = column matrix 2
      in [- (old_vec ! 1), - (old_vec ! 2), - (old_vec ! 0)])"

text \<open>Lines 51 to 84.\<close>

definition rotation_matrix_z :: "numpy \<Rightarrow> real \<Rightarrow> mat" where
  "rotation_matrix_z np angle_deg =
     (let angle_rad = np_deg2rad np angle_deg;
          cos_theta = np_cos np angle_rad;
          sin_theta = np_sin np angle_rad
      in [[cos_theta, - sin_theta, 0],
          [sin_theta, cos_theta, 0],
          [0, 0, 1]])"

definition rotation_matrix_x :: "numpy \<Rightarrow> real \<Rightarrow> mat" where
  "rotation_matrix_x np angle_deg =
     (let angle_rad = np_deg2rad np angle_deg;
          cos_theta = np_cos np angle_rad;
          sin_theta = np_sin np angle_rad
      in [[1, 0, 0],
          [0, cos_theta, - sin_theta],
          [0, sin_theta, cos_theta]])"

definition rotation_matrix_y :: "numpy \<Rightarrow> real \<Rightarrow> mat" where
  "rotation_matrix_y np angle_deg =
     (let angle_rad = np_deg2rad np angle_deg;
          cos_theta = np_cos np angle_rad;
          sin_theta = np_sin np angle_rad
      in [[cos_theta, 0, sin_theta],
          [0, 1, 0],
          [- sin_theta, 0, cos_theta]])"

text \<open>Lines 86 to 96: the last column of each pose, relative to the base pose.\<close>

definition calculate_relative_positions :: "mat \<Rightarrow> (int \<times> mat) list \<Rightarrow> (int \<times> real list) list" where
  "calculate_relative_positions base_pos stream =
     map (\<lambda>(i, data).
            (let base_column = last_column (take 3 base_pos);
                 data_column = last_column (take 3 data);
                 relative_data = map2 (-) data_column base_column
             in (i, relative_data)))
         stream"

section \<open>The driver: the pose of a tracking sample (lines 326 to 353)\<close>

text \<open>
  The constants read from files before the loop (lines 280 to 298). \<open>post_avglen\<close> is a
  Python list of floats, so an empty list or a zero mean raises \<open>ZeroDivisionError\<close>.
  \<open>camera2tool\<close> is computed once, at line 282, from \<open>tool2camera\<close>.
\<close>

record calib =
  tool2camera :: mat
  camera2tool :: mat
  world_center :: mat
  post_avglen :: "real list"
  base_pose :: mat

definition tracked_pose :: "numpy \<Rightarrow> calib \<Rightarrow> mat \<Rightarrow> py_error + mat" where
  "tracked_pose np c tracking0 =
     (case linalg_inv np tracking0 of
        Inl e \<Rightarrow> Inl e
      | Inr tracking_inv \<Rightarrow>
          (let transform_matrix1 = matmul (camera2tool c) tracking_inv;
               transform_matrix2 =
                 matmul (matmul transform_matrix1 (world_center c)) (tool2camera c)
           in case flip_matrix np transform_matrix2 of
                Inl e \<Rightarrow> Inl e
              | Inr transform_matrix3 \<Rightarrow>
                  (case py_truediv (sum_list (post_avglen c)) (real (length (post_avglen c))) of
                     Inl e \<Rightarrow> Inl e
                   | Inr avg_post_avglen \<Rightarrow>
                       (case py_truediv 4.0 avg_post_avglen of
                          Inl e \<Rightarrow> Inl e
                        | Inr k \<Rightarrow> Inr (scale_rows_col transform_matrix3 0 3 3 k)))))"

text \<open>Lines 353, 354 and 409 (again at 442): \<open>tran_vec\<close> and the look-at point.\<close>

definition tran_vec_of :: "mat \<Rightarrow> real list" where
  "tran_vec_of transform_matrix = last_column (take_rows transform_matrix [0, 1, 2])"

definition center :: "real list" where
  "center = [0.5, -0.50478, 0]"

definition look_at_of :: "real list \<Rightarrow> real list" where
  "look_at_of tran_vec =
     [center ! 0 + tran_vec ! 1 / 289.13,
      0.5 + tran_vec ! 2 * 0.0036754,
      0.5 + tran_vec ! 0 / 313.7255]"

text \<open>Lines 427 and 455: \<open>vector_up\<close>.\<close>

definition vector_up_of :: "mat \<Rightarrow> real list" where
  "vector_up_of rotation_matrix =
     [rotation_matrix ! 1 ! 1, rotation_matrix ! 2 ! 1, rotation_matrix ! 0 ! 1]"

section \<open>The driver: one iteration of the training loop (lines 317 to 527)\<close>

text \<open>
  What an iteration reads from outside the script: the sample \<open>tracking[0]\<close> of
  \<open>TRACKER.get_frame()\<close> (the tracker reports a matrix of NaN for a tool it does not
  see, which is what \<open>np.isnan(tracking[0][0][-1])\<close> tests), the attributes the engine
  sets, the keyboard, and the clocks. \<open>clock f n\<close> is the value of \<open>time.time()\<close> at
  line \<open>n\<close> of the source.
\<close>

datatype sample = Missing | Tracked mat

record frame_in =
  tracking0 :: sample
  timer :: real
  pressed_l :: bool
  pressed_space :: bool
  pressed_space_again :: bool
  clock :: "nat \<Rightarrow> real"
  camera_matrix :: mat
  want_repl :: bool
  training_step :: int
  monotonic :: real

text \<open>
  What the script does to the tracker and to the engine, in order. \<open>Frame\<close> is a call
  of \<open>testbed.frame()\<close> that returned true. Console output and the progress bar are
  not recorded.
\<close>

datatype event =
    NDITracker string
  | StartTracking
  | GetFrame
  | Frame
  | SetUsernum real
  | SetPressnum "int list"
  | SetTasktime real
  | SetLookAt "real list"
  | SetViewDir "real list"
  | SetUpDir "real list"
  | SetScale real
  | SetNdiRotation "real list"
  | SetNdiCamera1 "real list"
  | SetNdiCamera2 "real list"
  | SetNdiCamera3 "real list"
  | ResetAccumulation
  | Repl
  | SetShallTrain bool

text \<open>The variables of the script that live across iterations, and the events so far.\<close>

record loop_state =
  pressnum_initialized :: bool
  transform_matrix :: "mat option"
  j :: int
  stream_list :: "(int \<times> real list) list list"
  last_pressed_time :: real
  key_held :: bool
  prev_timer_value :: real
  start_time :: "real option"
  press_count :: int
  times_recorded :: "real list"
  old_training_step :: int
  tqdm_last_update :: real
  events :: "event list"

definition emit :: "event list \<Rightarrow> loop_state \<Rightarrow> loop_state" where
  "emit evs s = s\<lparr>events := events s @ evs\<rparr>"

text \<open>Lines 378 to 383.\<close>

definition x_matrix :: mat where
  "x_matrix =
     [[0.179233051, 0.0781816542, 0.980695234, 269.621530],
      [0.205724419, -0.977777731, 0.0403506246, -2.86812080],
      [0.962056639, 0.194520791, -0.191333961, -69.7097727],
      [0, 0, 0, 1]]"

text \<open>Lines 364 to 368: a change of \<open>testbed.timer\<close> starts a new recording.\<close>

definition timer_block :: "frame_in \<Rightarrow> loop_state \<Rightarrow> loop_state" where
  "timer_block f s =
     (if timer f \<noteq> prev_timer_value s
      then (let s1 = (case start_time s of
                        None \<Rightarrow> s
                      | Some t0 \<Rightarrow> s\<lparr>times_recorded := times_recorded s @ [clock f 366 - t0]\<rparr>)
            in s1\<lparr>start_time := Some (clock f 367), prev_timer_value := timer f\<rparr>)
      else s)"

text \<open>Lines 370 to 373: the key \<open>l\<close> resets the counter.\<close>

definition reset_block :: "frame_in \<Rightarrow> loop_state \<Rightarrow> loop_state" where
  "reset_block f s =
     (if pressed_l f
      then emit [SetPressnum [0, 0, 0], SetPressnum [0, 0, 0]] (s\<lparr>j := 0\<rparr>)
      else s)"

text \<open>Lines 377 to 402: a press of the space bar that is taken.\<close>

definition record_press :: "calib \<Rightarrow> mat \<Rightarrow> frame_in \<Rightarrow> loop_state \<Rightarrow> loop_state" where
  "record_press c tracked f s =
     (let transformed_data = matmul tracked x_matrix;
          stream = [(j s, transformed_data)];
          relative_stream = calculate_relative_positions (base_pose c) stream;
          s1 = s\<lparr>stream_list := stream_list s @ [relative_stream],
                 j := j s + 1,
                 press_count := press_count s + 1\<rparr>;
          s2 = (if press_count s1 mod 10 = 0
                then (case start_time s1 of
                        None \<Rightarrow> s1
                      | Some t0 \<Rightarrow>
                          s1\<lparr>times_recorded := times_recorded s1 @ [clock f 397 - t0],
                              start_time := None\<rparr>)
                else s1)
      in (emit [SetPressnum [j s2, 0, 0]] s2)
           \<lparr>key_held := True, last_pressed_time := clock f 402\<rparr>)"

text \<open>Lines 375 to 404.\<close>

definition space_block :: "calib \<Rightarrow> mat \<Rightarrow> frame_in \<Rightarrow> loop_state \<Rightarrow> loop_state" where
  "space_block c tracked f s =
     (if pressed_space f
      then (if pressed_space_again f \<and> 0.5 \<le> clock f 376 - last_pressed_time s
            then (if \<not> key_held s then record_press c tracked f s
                  else s\<lparr>key_held := False\<rparr>)
            else s)
      else s)"

text \<open>Lines 362 to 404.\<close>

definition evaluation_block :: "args \<Rightarrow> calib \<Rightarrow> mat \<Rightarrow> frame_in \<Rightarrow> loop_state \<Rightarrow> loop_state" where
  "evaluation_block a c tracked f s =
     (if evaluation a
      then space_block c tracked f (reset_block f (timer_block f s))
      else s)"

text \<open>
  Lines 405 to 458: what the engine is told about the camera. The first group of
  assignments uses the rotation turned by 45 degrees about x, the second the rotation
  as it is.
\<close>

definition camera_events :: "numpy \<Rightarrow> mat \<Rightarrow> frame_in \<Rightarrow> event list" where
  "camera_events np tm f =
     (let tran_vec = tran_vec_of tm;
          rot_matrix_x = rotation_matrix_x np 45;
          rot_matrix_y = rotation_matrix_y np 45;
          rot_matrix_z = rotation_matrix_z np 45;
          rotation_matrix1 = matmul (top_left3 tm) rot_matrix_x;
          k = camera_matrix f;
          rotation_matrix2 = top_left3 tm
      in [SetLookAt (look_at_of tran_vec),
          SetViewDir (rotation_matrix_to_vector rotation_matrix1),
          SetUpDir (vector_up_of rotation_matrix1),
          SetScale 1.025,
          SetNdiRotation (last_column k),
          SetNdiCamera1 (column k 0),
          SetNdiCamera2 (column k 1),
          SetNdiCamera3 (column k 2),
          SetLookAt (look_at_of tran_vec),
          SetViewDir (rotation_matrix_to_vector rotation_matrix2),
          SetUpDir (vector_up_of rotation_matrix2),
          SetScale (tran_vec ! 2 * 0.0036754 * 0.4),
          ResetAccumulation])"

text \<open>Lines 325 to 458: the branch taken for a sample that is not NaN.\<close>

definition sample_block :: "numpy \<Rightarrow> args \<Rightarrow> calib \<Rightarrow> mat \<Rightarrow> frame_in \<Rightarrow> loop_state \<Rightarrow>
    py_error + loop_state" where
  "sample_block np a c tracked f s =
     (case tracked_pose np c tracked of
        Inl e \<Rightarrow> Inl e
      | Inr tm \<Rightarrow>
          (let s1 = evaluation_block a c tracked f (s\<lparr>transform_matrix := Some tm\<rparr>);
               time_duration = (case start_time s1 of None \<Rightarrow> 0 | Some t0 \<Rightarrow> clock f 405 - t0)
           in Inr (emit (SetTasktime time_duration # camera_events np tm f) s1)))"

text \<open>Lines 322 to 458.\<close>

definition ndi_block :: "numpy \<Rightarrow> args \<Rightarrow> calib \<Rightarrow> frame_in \<Rightarrow> loop_state \<Rightarrow>
    loop_state \<times> py_error option" where
  "ndi_block np a c f s =
     (if gui a \<and> ndi a
      then (let s1 = emit [GetFrame] s
            in case tracking0 f of
                 Missing \<Rightarrow> (s1, None)
               | Tracked tracked \<Rightarrow>
                   (case sample_block np a c tracked f s1 of
                      Inl e \<Rightarrow> (s1, Some e)
                    | Inr s2 \<Rightarrow> (s2, None)))
      else (s, None))"

text \<open>Lines 518 to 527: the bookkeeping of the progress bar.\<close>

definition progress_block :: "frame_in \<Rightarrow> loop_state \<Rightarrow> loop_state" where
  "progress_block f s =
     (let s1 = (if training_step f < old_training_step s \<or> old_training_step s = 0
                then s\<lparr>old_training_step := 0\<rparr> else s);
          now = monotonic f
      in if 0.1 < now - tqdm_last_update s1
         then s1\<lparr>old_training_step := training_step f, tqdm_last_update := now\<rparr>
         else s1)"

text \<open>
  The body of \<open>while testbed.frame()\<close>, lines 318 to 527, for the training target
  \<open>n\<close>. The result says how the iteration ended.
\<close>

datatype outcome = Continue | Break | Raise py_error

definition frame_body :: "numpy \<Rightarrow> args \<Rightarrow> calib \<Rightarrow> int \<Rightarrow> frame_in \<Rightarrow> loop_state \<Rightarrow>
    outcome \<times> loop_state" where
  "frame_body np a c n f s =
     (let s1 = (if \<not> pressnum_initialized s
                then (emit [SetPressnum [0, 0, 0]] s)\<lparr>pressnum_initialized := True\<rparr>
                else s)
      in case ndi_block np a c f s1 of
           (s2, Some e) \<Rightarrow> (Raise e, s2)
         | (s2, None) \<Rightarrow>
             (let s3 = (if want_repl f then emit [Repl] s2 else s2)
              in if n \<le> training_step f
                 then (if gui a then (Continue, progress_block f (emit [SetShallTrain False] s3))
                       else (Break, s3))
                 else (Continue, progress_block f s3)))"

text \<open>
  The loop. The list holds the inputs of the iterations for which \<open>testbed.frame()\<close>
  returns true; after them it returns false and the loop ends.
\<close>

fun training_loop :: "numpy \<Rightarrow> args \<Rightarrow> calib \<Rightarrow> int \<Rightarrow> frame_in list \<Rightarrow> loop_state \<Rightarrow>
    loop_state \<times> py_error option" where
  "training_loop np a c n [] s = (s, None)"
| "training_loop np a c n (f # fs) s =
     (case frame_body np a c n f (emit [Frame] s) of
        (Raise e, s') \<Rightarrow> (s', Some e)
      | (Break, s') \<Rightarrow> (s', None)
      | (Continue, s') \<Rightarrow> training_loop np a c n fs s')"

section \<open>The driver: from the arguments to the end of training (lines 259 to 527)\<close>

text \<open>Lines 260 to 266.\<close>

definition choose_n_steps :: "args \<Rightarrow> int" where
  "choose_n_steps a =
     (if n_steps a < 0 \<and> (load_snapshot a = [] \<or> gui a) then 35000 else n_steps a)"

text \<open>Lines 268 to 275.\<close>

definition tracker_setup :: "args \<Rightarrow> event list" where
  "tracker_setup a = (if gui a \<and> ndi a then [NDITracker (row a), StartTracking] else [])"

text \<open>Lines 293 to 313.\<close>

definition initial_state :: loop_state where
  "initial_state =
     \<lparr>pressnum_initialized = False, transform_matrix = None, j = 0, stream_list = [],
      last_pressed_time = 0, key_held = False, prev_timer_value = 0, start_time = None,
      press_count = 0, times_recorded = [], old_training_step = 0, tqdm_last_update = 0,
      events = []\<rparr>"

text \<open>
  The files of lines 280 to 298 as the script finds them: \<open>camera2tool\<close> is not among
  them, the script computes it.
\<close>

record calib_files =
  tool2camera_csv :: mat
  world_center_pkl :: mat
  post_info_pkl :: "real list"
  base_pose_pickle :: mat

text \<open>
  Lines 170 to 171 and 259 to 527: the command line as parsed, the files, and the
  inputs of the iterations, to the state at the end of training.
\<close>

definition training :: "numpy \<Rightarrow> args \<Rightarrow> calib_files \<Rightarrow> frame_in list \<Rightarrow>
    loop_state \<times> py_error option" where
  "training np parsed files frames =
     (let a = vr_implies_gui parsed;
          n = choose_n_steps a;
          s0 = emit (tracker_setup a) initial_state
      in case linalg_inv np (tool2camera_csv files) of
           Inl e \<Rightarrow> (s0, Some e)
         | Inr c2t \<Rightarrow>
             (let c = \<lparr>tool2camera = tool2camera_csv files, camera2tool = c2t,
                       world_center = world_center_pkl files,
                       post_avglen = post_info_pkl files,
                       base_pose = base_pose_pickle files\<rparr>;
                  s1 = emit [SetUsernum (user_id a)] s0
              in if 0 < n then training_loop np a c n frames s1 else (s1, None)))"

section \<open>The driver: evaluation against test transforms (lines 537 to 595)\<close>

text \<open>
  The engine renders image \<open>i\<close> of the test dataset twice and \<open>compute_error\<close> of the
  module \<open>common\<close> compares the two renderings; \<open>mse2psnr\<close> is from the same module.
  Neither is in this file, so they are parameters: \<open>compute_error env metric i\<close> is the
  value of \<open>float(compute_error(metric, A, R))\<close> in iteration \<open>i\<close>, and \<open>n_images\<close> is
  \<open>testbed.nerf.training.dataset.n_images\<close> after the test transforms are loaded.
\<close>

record test_env =
  n_images :: nat
  compute_error :: "string \<Rightarrow> nat \<Rightarrow> real"
  mse2psnr :: "real \<Rightarrow> real"

record eval_state =
  totmse :: real
  totpsnr :: real
  totssim :: real
  totcount :: int
  minpsnr :: real
  maxpsnr :: real

text \<open>Lines 542 to 547.\<close>

definition eval_init :: eval_state where
  "eval_init = \<lparr>totmse = 0, totpsnr = 0, totssim = 0, totcount = 0, minpsnr = 1000, maxpsnr = 0\<rparr>"

text \<open>Lines 581 to 590: the arithmetic of one iteration.\<close>

definition eval_step :: "test_env \<Rightarrow> nat \<Rightarrow> eval_state \<Rightarrow> py_error + eval_state" where
  "eval_step env i s =
     (let mse = compute_error env ''MSE'' i;
          ssim_i = compute_error env ''SSIM'' i;
          s1 = s\<lparr>totssim := totssim s + ssim_i\<rparr>;
          s2 = s1\<lparr>totmse := totmse s1 + mse\<rparr>;
          psnr = mse2psnr env mse;
          s3 = s2\<lparr>totpsnr := totpsnr s2 + psnr\<rparr>;
          s4 = s3\<lparr>minpsnr := (if psnr < minpsnr s3 then psnr else minpsnr s3)\<rparr>;
          s5 = s4\<lparr>maxpsnr := (if maxpsnr s4 < psnr then psnr else maxpsnr s4)\<rparr>;
          s6 = s5\<lparr>totcount := totcount s5 + 1\<rparr>
      in case py_truediv (totpsnr s6) (real_of_int (py_or (totcount s6) 1)) of
           Inl e \<Rightarrow> Inl e
         | Inr postfix \<Rightarrow> Inr s6)"

text \<open>Lines 562 to 590: \<open>for i in range(n_images)\<close>.\<close>

fun eval_loop :: "test_env \<Rightarrow> nat list \<Rightarrow> eval_state \<Rightarrow> py_error + eval_state" where
  "eval_loop env [] s = Inr s"
| "eval_loop env (i # is) s =
     (case eval_step env i s of
        Inl e \<Rightarrow> Inl e
      | Inr s' \<Rightarrow> eval_loop env is s')"

text \<open>What line 595 prints, and \<open>psnr_avgmse\<close> of line 592.\<close>

record eval_report =
  psnr_avgmse :: real
  psnr_avg :: real
  ssim_avg :: real
  psnr_min :: real
  psnr_max :: real
  images_evaluated :: int

text \<open>Lines 592 to 595.\<close>

definition eval_report_of :: "test_env \<Rightarrow> eval_state \<Rightarrow> py_error + eval_report" where
  "eval_report_of env s =
     (case py_truediv (totmse s) (real_of_int (py_or (totcount s) 1)) of
        Inl e \<Rightarrow> Inl e
      | Inr avgmse \<Rightarrow>
          (case py_truediv (totpsnr s) (real_of_int (py_or (totcount s) 1)) of
             Inl e \<Rightarrow> Inl e
           | Inr psnr \<Rightarrow>
               (case py_truediv (totssim s) (real_of_int (py_or (totcount s) 1)) of
                  Inl e \<Rightarrow> Inl e
                | Inr ssim_v \<Rightarrow>
                    Inr \<lparr>psnr_avgmse = mse2psnr env avgmse, psnr_avg = psnr, ssim_avg = ssim_v,
                         psnr_min = minpsnr s, psnr_max = maxpsnr s,
                         images_evaluated = totcount s\<rparr>)))"

text \<open>
  Lines 537 to 595: \<open>None\<close> when \<open>--test_transforms\<close> is not given, otherwise the report
  or the exception.
\<close>

definition evaluate_test_transforms :: "args \<Rightarrow> test_env \<Rightarrow> (py_error + eval_report) option" where
  "evaluate_test_transforms a env =
     (if test_transforms a = [] then None
      else Some (case eval_loop env [0..<n_images env] eval_init of
                   Inl e \<Rightarrow> Inl e
                 | Inr s \<Rightarrow> eval_report_of env s))"

section \<open>The driver: rendering a video (lines 630 to 662)\<close>

text \<open>
  \<open>Render w h spp i\<close> is the call of \<open>testbed.render\<close> for frame \<open>i\<close> (its time
  arguments are \<open>float(i)/n_frames\<close> and \<open>float(i + 1)/n_frames\<close>, evaluated only inside
  the loop, where \<open>n_frames\<close> is positive and below \<open>2 ^ 63\<close>). \<open>WriteFrame name\<close> writes
  a frame under the name \<open>args.video_output % i\<close>, \<open>WriteTmp i\<close> under
  \<open>tmp/{i:04d}.jpg\<close>. Python's \<open>%\<close> on a string and an integer is a parameter: it
  raises for a format it cannot fill.
\<close>

datatype video_event =
    LoadCameraPath string
  | Rmtree string
  | Makedirs string
  | SetCameraSmoothing bool
  | Render int int int int
  | WriteFrame string
  | WriteTmp int
  | Ffmpeg int string

record video_env =
  tmp_listed :: bool
  py_format :: "string \<Rightarrow> int \<Rightarrow> py_error + string"

text \<open>Line 635: \<open>"%" in args.video_output\<close>.\<close>

definition save_frames :: "args \<Rightarrow> bool" where
  "save_frames a = (CHR ''%'' \<in> set (video_output a))"

text \<open>
  \<open>2**args.exposure\<close> of lines 657 and 659, an integer base with a float exponent: the
  float power raises \<open>OverflowError\<close> when the result is out of the range of a double,
  which for the base 2 is every finite exponent from 1024 on; an infinite exponent
  gives \<open>inf\<close> or \<open>0.0\<close>, and \<open>nan\<close> gives \<open>nan\<close>, without an exception.
\<close>

definition py_pow2 :: "py_float \<Rightarrow> py_error + py_float" where
  "py_pow2 x =
     (case x of
        Finite e \<Rightarrow> if 1024 \<le> e then Inl OverflowError else Inr (Finite (2 powr e))
      | PosInf \<Rightarrow> Inr PosInf
      | NegInf \<Rightarrow> Inr (Finite 0)
      | NaN \<Rightarrow> Inr NaN)"

text \<open>
  Lines 643 to 659: one iteration, for the index \<open>i\<close>. The arguments of \<open>write_image\<close>
  are evaluated from left to right: the file name first, then \<open>2**args.exposure\<close>.
\<close>

definition video_frame :: "video_env \<Rightarrow> args \<Rightarrow> int \<Rightarrow> video_event list \<times> py_error option" where
  "video_frame env a i =
     (let resolution = [py_or (width a) 1920, py_or (height a) 1080];
          start_frame = fst (video_render_range a);
          end_frame = snd (video_render_range a);
          smoothing = [SetCameraSmoothing (video_camera_smoothing a)]
      in if 0 \<le> start_frame \<and> i < start_frame
         then (smoothing @ [Render 32 32 1 i], None)
         else if 0 \<le> end_frame \<and> end_frame < i
         then (smoothing, None)
         else (let rendered = smoothing @ [Render (resolution ! 0) (resolution ! 1) (video_spp a) i]
               in if save_frames a
                  then (case py_format env (video_output a) i of
                          Inl e \<Rightarrow> (rendered, Some e)
                        | Inr name \<Rightarrow>
                            (case py_pow2 (exposure a) of
                               Inl e \<Rightarrow> (rendered, Some e)
                             | Inr scale \<Rightarrow> (rendered @ [WriteFrame name], None)))
                  else (case py_pow2 (exposure a) of
                          Inl e \<Rightarrow> (rendered, Some e)
                        | Inr scale \<Rightarrow> (rendered @ [WriteTmp i], None))))"

text \<open>Line 642: the loop over the indices.\<close>

fun video_loop :: "video_env \<Rightarrow> args \<Rightarrow> int list \<Rightarrow> video_event list \<times> py_error option" where
  "video_loop env a [] = ([], None)"
| "video_loop env a (i # is) =
     (case video_frame env a i of
        (evs, Some e) \<Rightarrow> (evs, Some e)
      | (evs, None) \<Rightarrow>
          (case video_loop env a is of (evs', r) \<Rightarrow> (evs @ evs', r)))"

text \<open>
  \<open>list(range(k))\<close> for an integer \<open>k\<close>: a list cannot have more than \<open>2 ^ 63 - 1\<close>
  elements (\<open>sys.maxsize\<close> of a 64-bit build), and \<open>list\<close> raises \<open>OverflowError\<close> for a
  longer range. Running out of memory for a shorter one is not modelled.
\<close>

definition py_range :: "int \<Rightarrow> py_error + int list" where
  "py_range k = (if 2 ^ 63 \<le> k then Inl OverflowError else Inr [0..k - 1])"

text \<open>Lines 630 to 662.\<close>

definition render_video :: "video_env \<Rightarrow> args \<Rightarrow> video_event list \<times> py_error option" where
  "render_video env a =
     (if video_camera_path a = [] then ([], None)
      else (let n_frames = video_n_seconds a * video_fps a;
                prelude = [LoadCameraPath (video_camera_path a)]
                        @ (if tmp_listed env then [Rmtree ''tmp''] else [])
                        @ [Makedirs ''tmp'']
            in case py_range (min n_frames (n_frames + 1)) of
                 Inl e \<Rightarrow> (prelude, Some e)
               | Inr indices \<Rightarrow>
                   (case video_loop env a indices of
                      (evs, Some e) \<Rightarrow> (prelude @ evs, Some e)
                    | (evs, None) \<Rightarrow>
                        (prelude @ evs
                         @ (if \<not> save_frames a then [Ffmpeg (video_fps a) (video_output a)]
                            else []),
                         None))))"

section \<open>Observations on the events of the driver\<close>

text \<open>The calls on the tracker, and the events the tracker claims are stated on.\<close>

fun is_tracker_event :: "event \<Rightarrow> bool" where
  "is_tracker_event (NDITracker rom) = True"
| "is_tracker_event StartTracking = True"
| "is_tracker_event GetFrame = True"
| "is_tracker_event e = False"

definition tracker_view :: "event list \<Rightarrow> event list" where
  "tracker_view evs = filter (\<lambda>e. is_tracker_event e \<or> e = Frame) evs"

text \<open>The assignments to \<open>testbed.look_at\<close>, \<open>testbed.view_dir\<close> and \<open>testbed.up_dir\<close>.\<close>

fun is_pose_event :: "event \<Rightarrow> bool" where
  "is_pose_event (SetLookAt v) = True"
| "is_pose_event (SetViewDir v) = True"
| "is_pose_event (SetUpDir v) = True"
| "is_pose_event e = False"

definition pose_view :: "event list \<Rightarrow> event list" where
  "pose_view evs = filter is_pose_event evs"

text \<open>The events an iteration adds to those of the state it starts from.\<close>

definition new_events :: "loop_state \<Rightarrow> loop_state \<Rightarrow> event list" where
  "new_events s s' = drop (length (events s)) (events s')"

text \<open>
  The iterations of the video loop that were begun: each begins with the assignment
  of line 643.
\<close>

fun is_smoothing :: "video_event \<Rightarrow> bool" where
  "is_smoothing (SetCameraSmoothing b) = True"
| "is_smoothing e = False"

fun is_ffmpeg :: "video_event \<Rightarrow> bool" where
  "is_ffmpeg (Ffmpeg fps out) = True"
| "is_ffmpeg e = False"

section \<open>The pose pipeline as the specification words it\<close>










text \<open>The translation of a 4 by 4 pose is the first three entries of its last column.\<close>

definition spec_scale_translation :: "real \<Rightarrow> mat \<Rightarrow> mat" where
  "spec_scale_translation k m = map (\<lambda>r. r[3 := r ! 3 * k]) (take 3 m) @ drop 3 m"





text \<open>
  A 4 by 4 array. The arrays of the script are 4 by 4, and so is the inverse of a 4 by 4
  array; on arrays of this shape the list operations of the model are the \<open>numpy\<close>
  operations of the script.
\<close>

definition mat4 :: "mat \<Rightarrow> bool" where
  "mat4 m = (length m = 4 \<and> list_all (\<lambda>r. length r = 4) m)"

definition inv_keeps_shape :: "numpy \<Rightarrow> bool" where
  "inv_keeps_shape np = (\<forall>m r. mat4 m \<longrightarrow> linalg_inv np m = Inr r \<longrightarrow> mat4 r)"

definition well_shaped :: "args \<Rightarrow> calib \<Rightarrow> bool" where
  "well_shaped a c =
     (mat4 (camera2tool c) \<and> mat4 (tool2camera c) \<and> mat4 (world_center c)
      \<and> (evaluation a \<longrightarrow> mat4 (base_pose c)))"

section \<open>Properties of the SSIM snippet\<close>

text \<open>
  A small file system used to run the snippet: an image is a number, two images are
  similar (score 1) when they are equal and dissimilar (score 0) otherwise. The pair
  \<open>564.png\<close> is identical, the pair \<open>1.png\<close> differs.
\<close>

definition example_env :: "(nat, nat, unit) ssim_env" where
  "example_env =
     \<lparr>imread = (\<lambda>p. if p = ''black_toy/images/564.png'' then Some 5
                     else if p = ''black_toy/test_output/564.png'' then Some 5
                     else if p = ''black_toy/images/1.png'' then Some 0
                     else if p = ''black_toy/test_output/1.png'' then Some 9
                     else None),
      cvtColor = (\<lambda>im. im),
      ssim = (\<lambda>a b. Inr (if a = b then 1 else 0, ())),
      listdir = (\<lambda>d. if d = ''black_toy/test_output'' then Inr [''1.png'', ''564.png'']
                      else Inl OSError)\<rparr>"

text \<open>
  A file system whose directory \<open>black_toy/test_output\<close> exists and has no entry: no
  path under it can be read, the reference images are in place.
\<close>

definition example_env_no_output :: "(nat, nat, unit) ssim_env" where
  "example_env_no_output =
     \<lparr>imread = (\<lambda>p. if p = ''black_toy/images/564.png'' then Some 5
                     else if p = ''black_toy/images/1.png'' then Some 0
                     else None),
      cvtColor = (\<lambda>im. im),
      ssim = (\<lambda>a b. Inr (if a = b then 1 else 0, ())),
      listdir = (\<lambda>d. if d = ''black_toy/test_output'' then Inr [] else Inl OSError)\<rparr>"

text \<open>The reads of the loop, for a listing.\<close>

definition loop_reads :: "string list \<Rightarrow> ssim_event list" where
  "loop_reads images =
     concat (map (\<lambda>n. [Imread (path @ ''/test_output/'' @ n), Imread (path @ ''/images/'' @ n)])
                 images)"

lemma score_loop_total:
  "ssim env grayA grayB = Inr (s, d) \<Longrightarrow>
   snd (score_loop env grayA grayB images total_list) =
     Inr (total_list @ replicate (length images) s)"
proof (induction images arbitrary: total_list)
  case Nil
  then show ?case by simp
next
  case (Cons image_name images)
  have "snd (score_loop env grayA grayB images (total_list @ [s])) =
        Inr ((total_list @ [s]) @ replicate (length images) s)"
    using Cons.IH [OF Cons.prems] .
  then show ?case
    using Cons.prems by (auto simp: Let_def replicate_app_Cons_same split: prod.splits)
qed

lemma score_loop_events:
  "ssim env grayA grayB = Inr (s, d) \<Longrightarrow>
   fst (score_loop env grayA grayB images total_list) = loop_reads images"
proof (induction images arbitrary: total_list)
  case Nil
  then show ?case by (simp add: loop_reads_def)
next
  case (Cons image_name images)
  have "fst (score_loop env grayA grayB images (total_list @ [s])) = loop_reads images"
    using Cons.IH [OF Cons.prems] .
  then show ?case
    using Cons.prems by (auto simp: Let_def loop_reads_def split: prod.splits)
qed

lemma score_loop_eq:
  "ssim env grayA grayB = Inr (s, d) \<Longrightarrow>
   score_loop env grayA grayB images [] = (loop_reads images, Inr (replicate (length images) s))"
  using score_loop_total [of env grayA grayB s d images "[]"]
    score_loop_events [of env grayA grayB s d images "[]"]
  by (simp add: prod_eq_iff)

lemma print_average_empty: "print_average [] = ([], Inl ZeroDivisionError)"
  by (simp add: print_average_def py_truediv_def)

lemma print_average_nonempty:
  "total_list \<noteq> [] \<Longrightarrow>
   print_average total_list = ([PrintValue (sum_list total_list / real (length total_list))], Inr ())"
  by (simp add: print_average_def py_truediv_def)

lemma directory_average_eq:
  assumes "listdir env ''black_toy/test_output'' = Inr images"
    and "ssim env grayA grayB = Inr (s, d)"
  shows "directory_average env grayA grayB =
     (if images = []
      then ([Listdir ''black_toy/test_output''], Inl ZeroDivisionError)
      else (Listdir ''black_toy/test_output'' # loop_reads images
              @ [PrintValue (sum_list (replicate (length images) s) / real (length images))],
            Inr ()))"
proof (cases "images = []")
  case True
  then show ?thesis
    using assms
    by (simp add: directory_average_def path_def print_average_empty loop_reads_def)
next
  case False
  then have "replicate (length images) s \<noteq> []" by simp
  then show ?thesis
    using assms False score_loop_eq [OF assms(2), of images]
    by (simp add: directory_average_def path_def print_average_nonempty)
qed

lemma ssim_script_eq:
  assumes "imread env ''black_toy/images/564.png'' = Some a"
    and "imread env ''black_toy/test_output/564.png'' = Some b"
    and "ssim env (cvtColor env a) (cvtColor env b) = Inr (s, d)"
  shows "ssim_script env =
     ([Imread ''black_toy/images/564.png'', Imread ''black_toy/test_output/564.png'', PrintSSIM s]
        @ fst (directory_average env (cvtColor env a) (cvtColor env b)),
      snd (directory_average env (cvtColor env a) (cvtColor env b)))"
  using assms by (simp add: ssim_script_def cvt_gray_def split: prod.splits)

lemma loop_reads_no_print: "PrintValue v \<notin> set (loop_reads images)"
  by (auto simp: loop_reads_def)

text \<open>
  C1. Claimed: for every file name of \<open>black_toy/test_output\<close>, the score appended to
  \<open>total\<close> is the similarity of that generated image and the reference image of the same
  name, so that the printed value is the average over the pairs of the directory. The
  loop reads both images of the pair and then calls \<open>ssim(grayA, grayB)\<close>, the two
  images of lines 29 and 30. On the example file system the pair \<open>1.png\<close> scores 0 and
  the pair \<open>564.png\<close> scores 1, yet the script appends 1 twice and prints the average 1.
\<close>

theorem ssim_script_scores_fixed_pair:
  "ssim_script example_env =
     ([Imread ''black_toy/images/564.png'', Imread ''black_toy/test_output/564.png'',
       PrintSSIM 1, Listdir ''black_toy/test_output'',
       Imread ''black_toy/test_output/1.png'', Imread ''black_toy/images/1.png'',
       Imread ''black_toy/test_output/564.png'', Imread ''black_toy/images/564.png'',
       PrintValue 1], Inr ())
   \<and> snd (score_loop example_env 5 5 [''1.png'', ''564.png''] []) = Inr [1, 1]
   \<and> pairwise_scores example_env [''1.png'', ''564.png''] = [Inr 0, Inr 1]"
proof -
  have s: "ssim example_env 5 5 = Inr (1, ())"
    by (simp add: example_env_def)
  have l: "listdir example_env ''black_toy/test_output'' = Inr [''1.png'', ''564.png'']"
    by (simp add: example_env_def)
  have d: "directory_average example_env 5 5 =
      (Listdir ''black_toy/test_output'' # loop_reads [''1.png'', ''564.png'']
         @ [PrintValue 1], Inr ())"
    using directory_average_eq [OF l s] by simp
  have "ssim_script example_env =
     ([Imread ''black_toy/images/564.png'', Imread ''black_toy/test_output/564.png'', PrintSSIM 1]
        @ fst (directory_average example_env 5 5),
      snd (directory_average example_env 5 5))"
    using ssim_script_eq [of example_env 5 5 1 "()"] by (simp add: example_env_def)
  then have 1: "ssim_script example_env =
     ([Imread ''black_toy/images/564.png'', Imread ''black_toy/test_output/564.png'',
       PrintSSIM 1, Listdir ''black_toy/test_output'',
       Imread ''black_toy/test_output/1.png'', Imread ''black_toy/images/1.png'',
       Imread ''black_toy/test_output/564.png'', Imread ''black_toy/images/564.png'',
       PrintValue 1], Inr ())"
    by (simp add: d loop_reads_def path_def)
  have 2: "snd (score_loop example_env 5 5 [''1.png'', ''564.png''] []) = Inr [1, 1]"
    using score_loop_total [OF s, of "[''1.png'', ''564.png'']" "[]"] by simp
  have 3: "pairwise_scores example_env [''1.png'', ''564.png''] = [Inr 0, Inr 1]"
    by (simp add: example_env_def cvt_gray_def path_def)
  show ?thesis using 1 2 3 by blast
qed

text \<open>
  C7. Whatever the environment, the script first reads the two fixed paths. When both
  images load and their comparison succeeds, the score printed is the similarity of
  their grayscale versions, it is the only score line of the run, and it is printed
  before the directory is listed.
\<close>

theorem ssim_script_prints_fixed_pair_first:
  "take 2 (fst (ssim_script env)) =
     [Imread ''black_toy/images/564.png'', Imread ''black_toy/test_output/564.png'']
   \<and> (\<forall>a b s d.
        imread env ''black_toy/images/564.png'' = Some a \<longrightarrow>
        imread env ''black_toy/test_output/564.png'' = Some b \<longrightarrow>
        ssim env (cvtColor env a) (cvtColor env b) = Inr (s, d) \<longrightarrow>
        take 4 (fst (ssim_script env)) =
          [Imread ''black_toy/images/564.png'', Imread ''black_toy/test_output/564.png'',
           PrintSSIM s, Listdir ''black_toy/test_output'']
        \<and> (\<forall>v. PrintSSIM v \<in> set (drop 3 (fst (ssim_script env))) \<longrightarrow> False))"
proof (intro conjI allI impI)
  show "take 2 (fst (ssim_script env)) =
     [Imread ''black_toy/images/564.png'', Imread ''black_toy/test_output/564.png'']"
    by (simp add: ssim_script_def Let_def split: sum.splits prod.splits)
next
  fix a b s d
  assume a: "imread env ''black_toy/images/564.png'' = Some a"
    and b: "imread env ''black_toy/test_output/564.png'' = Some b"
    and s: "ssim env (cvtColor env a) (cvtColor env b) = Inr (s, d)"
  note eq = ssim_script_eq [OF a b s]
  have da: "\<exists>rest. fst (directory_average env (cvtColor env a) (cvtColor env b)) =
      Listdir ''black_toy/test_output'' # rest \<and> (\<forall>v. PrintSSIM v \<notin> set rest)"
  proof (cases "listdir env ''black_toy/test_output''")
    case (Inl e)
    then show ?thesis by (simp add: directory_average_def path_def)
  next
    case (Inr images)
    show ?thesis
      using directory_average_eq [OF Inr s] by (auto simp: loop_reads_def)
  qed
  then obtain rest where rest:
    "fst (directory_average env (cvtColor env a) (cvtColor env b)) =
       Listdir ''black_toy/test_output'' # rest" "\<forall>v. PrintSSIM v \<notin> set rest"
    by blast
  show "take 4 (fst (ssim_script env)) =
          [Imread ''black_toy/images/564.png'', Imread ''black_toy/test_output/564.png'',
           PrintSSIM s, Listdir ''black_toy/test_output'']"
    by (simp add: eq rest)
  fix v
  assume "PrintSSIM v \<in> set (drop 3 (fst (ssim_script env)))"
  then show False using rest by (simp add: eq)
qed

theorem ssim_script_prints_fixed_pair_first_witness:
  "take 2 (fst (ssim_script example_env)) =
     [Imread ''black_toy/images/564.png'', Imread ''black_toy/test_output/564.png'']
   \<and> imread example_env ''black_toy/images/564.png'' = Some 5
   \<and> imread example_env ''black_toy/test_output/564.png'' = Some 5
   \<and> ssim example_env (cvtColor example_env 5) (cvtColor example_env 5) = Inr (1, ())
   \<and> take 4 (fst (ssim_script example_env)) =
          [Imread ''black_toy/images/564.png'', Imread ''black_toy/test_output/564.png'',
           PrintSSIM 1, Listdir ''black_toy/test_output'']"
proof -
  have a: "imread example_env ''black_toy/images/564.png'' = Some 5"
    and b: "imread example_env ''black_toy/test_output/564.png'' = Some 5"
    and s: "ssim example_env (cvtColor example_env 5) (cvtColor example_env 5) = Inr (1, ())"
    by (simp_all add: example_env_def)
  show ?thesis
    using ssim_script_prints_fixed_pair_first [of example_env] a b s by blast
qed

lemma ssim_script_after_listing:
  assumes "imread env ''black_toy/images/564.png'' = Some a"
    and "imread env ''black_toy/test_output/564.png'' = Some b"
    and "ssim env (cvtColor env a) (cvtColor env b) = Inr (s, d)"
    and "listdir env ''black_toy/test_output'' = Inr images"
  shows "(images = [] \<longrightarrow>
            ssim_script env =
              ([Imread ''black_toy/images/564.png'', Imread ''black_toy/test_output/564.png'',
                PrintSSIM s, Listdir ''black_toy/test_output''], Inl ZeroDivisionError))
       \<and> (images \<noteq> [] \<longrightarrow> snd (ssim_script env) = Inr ())
       \<and> ((\<exists>v. PrintValue v \<in> set (fst (ssim_script env))) \<longleftrightarrow> images \<noteq> [])"
proof -
  note eq = ssim_script_eq [OF assms(1,2,3)]
  note da = directory_average_eq [OF assms(4) assms(3)]
  show ?thesis
    by (cases "images = []") (auto simp: eq da loop_reads_no_print)
qed

lemma ssim_script_unreadable:
  assumes "imread env ''black_toy/test_output/564.png'' = None"
  shows "ssim_script env =
     ([Imread ''black_toy/images/564.png'', Imread ''black_toy/test_output/564.png''],
      Inl CvError)"
  using assms by (simp add: ssim_script_def cvt_gray_def split: option.splits)

lemma ssim_script_early:
  assumes "\<forall>a b s d. imread env ''black_toy/images/564.png'' = Some a \<longrightarrow>
             imread env ''black_toy/test_output/564.png'' = Some b \<longrightarrow>
             ssim env (cvtColor env a) (cvtColor env b) \<noteq> Inr (s, d)"
  shows "\<exists>e. ssim_script env =
     ([Imread ''black_toy/images/564.png'', Imread ''black_toy/test_output/564.png''], Inl e)"
proof (cases "imread env ''black_toy/images/564.png''")
  case None
  then show ?thesis by (simp add: ssim_script_def cvt_gray_def)
next
  case a: (Some a)
  show ?thesis
  proof (cases "imread env ''black_toy/test_output/564.png''")
    case None
    then show ?thesis using ssim_script_unreadable by blast
  next
    case b: (Some b)
    obtain e where "ssim env (cvtColor env a) (cvtColor env b) = Inl e"
      using assms a b by (cases "ssim env (cvtColor env a) (cvtColor env b)") auto
    then show ?thesis using a b by (simp add: ssim_script_def cvt_gray_def)
  qed
qed

text \<open>
  C9. Claimed: when \<open>black_toy/test_output\<close> has no entry, the division of line 51
  divides by zero. On a file system whose directory \<open>black_toy/test_output\<close> is empty,
  \<open>black_toy/test_output/564.png\<close> cannot be read, so the script stops with the error of
  \<open>cv2.cvtColor\<close> at line 30, after the two reads of lines 23 and 24: the directory is
  never listed and line 51 is never reached.
\<close>

theorem ssim_script_empty_directory_counterexample:
  "listdir example_env_no_output ''black_toy/test_output'' = Inr []
   \<and> (\<forall>n. imread example_env_no_output (''black_toy/test_output/'' @ n) = None)
   \<and> ssim_script example_env_no_output =
       ([Imread ''black_toy/images/564.png'', Imread ''black_toy/test_output/564.png''],
        Inl CvError)
   \<and> snd (ssim_script example_env_no_output) \<noteq> Inl ZeroDivisionError
   \<and> Listdir ''black_toy/test_output'' \<notin> set (fst (ssim_script example_env_no_output))"
proof -
  have 1: "listdir example_env_no_output ''black_toy/test_output'' = Inr []"
    by (simp add: example_env_no_output_def)
  have 2: "\<forall>n. imread example_env_no_output (''black_toy/test_output/'' @ n) = None"
    by (simp add: example_env_no_output_def)
  have "imread example_env_no_output ''black_toy/test_output/564.png'' = None"
    by (simp add: example_env_no_output_def)
  then have 3: "ssim_script example_env_no_output =
       ([Imread ''black_toy/images/564.png'', Imread ''black_toy/test_output/564.png''],
        Inl CvError)"
    by (rule ssim_script_unreadable)
  show ?thesis using 1 2 by (simp add: 3)
qed

text \<open>
  C9, amended. On a file system that does not change during the run (the directory
  \<open>black_toy/test_output\<close> has an entry if its file \<open>564.png\<close> can be read), an empty
  directory makes the script fail, with the error of \<open>cv2.cvtColor\<close> at line 30 and
  before the directory is listed; an average is printed only when the listing is not
  empty; and once the directory has been listed the script ends normally, so the division
  of line 51 does not fail.
\<close>

theorem ssim_script_empty_directory:
  assumes "static_directory env"
    and "listdir env ''black_toy/test_output'' = Inr images"
  shows "(images = [] \<longrightarrow>
            ssim_script env =
              ([Imread ''black_toy/images/564.png'', Imread ''black_toy/test_output/564.png''],
               Inl CvError))
       \<and> ((\<exists>v. PrintValue v \<in> set (fst (ssim_script env))) \<longrightarrow> images \<noteq> [])
       \<and> (Listdir ''black_toy/test_output'' \<in> set (fst (ssim_script env)) \<longrightarrow>
            snd (ssim_script env) = Inr ())"
proof -
  have listed: "images \<noteq> []"
    if "imread env ''black_toy/test_output/564.png'' = Some b" for b
    using assms that by (simp add: static_directory_def path_def)
  show ?thesis
  proof (cases "\<exists>a b s d. imread env ''black_toy/images/564.png'' = Some a \<and>
             imread env ''black_toy/test_output/564.png'' = Some b \<and>
             ssim env (cvtColor env a) (cvtColor env b) = Inr (s, d)")
    case True
    then obtain a b s d where a: "imread env ''black_toy/images/564.png'' = Some a"
      and b: "imread env ''black_toy/test_output/564.png'' = Some b"
      and s: "ssim env (cvtColor env a) (cvtColor env b) = Inr (s, d)"
      by blast
    have ne: "images \<noteq> []" using listed [OF b] .
    show ?thesis
      using ssim_script_after_listing [OF a b s assms(2)] ne by blast
  next
    case False
    then obtain e where e: "ssim_script env =
       ([Imread ''black_toy/images/564.png'', Imread ''black_toy/test_output/564.png''], Inl e)"
      using ssim_script_early [of env] by blast
    have "images = [] \<longrightarrow> imread env ''black_toy/test_output/564.png'' = None"
      using listed by (cases "imread env ''black_toy/test_output/564.png''") auto
    then have "images = [] \<longrightarrow> ssim_script env =
       ([Imread ''black_toy/images/564.png'', Imread ''black_toy/test_output/564.png''],
        Inl CvError)"
      using ssim_script_unreadable by blast
    then show ?thesis by (simp add: e)
  qed
qed

theorem ssim_script_empty_directory_witness:
  "static_directory example_env_no_output
   \<and> listdir example_env_no_output ''black_toy/test_output'' = Inr []
   \<and> ssim_script example_env_no_output =
       ([Imread ''black_toy/images/564.png'', Imread ''black_toy/test_output/564.png''],
        Inl CvError)
   \<and> static_directory example_env
   \<and> listdir example_env ''black_toy/test_output'' = Inr [''1.png'', ''564.png'']
   \<and> Listdir ''black_toy/test_output'' \<in> set (fst (ssim_script example_env))
   \<and> snd (ssim_script example_env) = Inr ()"
proof -
  have c0: "static_directory example_env_no_output"
    by (simp add: static_directory_def example_env_no_output_def path_def)
  have l0: "listdir example_env_no_output ''black_toy/test_output'' = Inr []"
    by (simp add: example_env_no_output_def)
  have c1: "static_directory example_env"
    by (simp add: static_directory_def example_env_def path_def)
  have l1: "listdir example_env ''black_toy/test_output'' = Inr [''1.png'', ''564.png'']"
    by (simp add: example_env_def)
  have 1: "ssim_script example_env_no_output =
       ([Imread ''black_toy/images/564.png'', Imread ''black_toy/test_output/564.png''],
        Inl CvError)"
    using ssim_script_empty_directory [OF c0 l0] by blast
  have a: "imread example_env ''black_toy/images/564.png'' = Some 5"
    and b: "imread example_env ''black_toy/test_output/564.png'' = Some 5"
    and s: "ssim example_env (cvtColor example_env 5) (cvtColor example_env 5) = Inr (1, ())"
    by (simp_all add: example_env_def)
  have "take 4 (fst (ssim_script example_env)) =
      [Imread ''black_toy/images/564.png'', Imread ''black_toy/test_output/564.png'',
       PrintSSIM 1, Listdir ''black_toy/test_output'']"
    using ssim_script_eq [OF a b s] directory_average_eq [OF l1 s] by simp
  then have "Listdir ''black_toy/test_output'' \<in> set (take 4 (fst (ssim_script example_env)))"
    by simp
  then have 2: "Listdir ''black_toy/test_output'' \<in> set (fst (ssim_script example_env))"
    by (rule in_set_takeD)
  have 3: "snd (ssim_script example_env) = Inr ()"
    using ssim_script_empty_directory [OF c1 l1] 2 by blast
  show ?thesis using c0 l0 1 c1 l1 2 3 by blast
qed

section \<open>Properties of the driver: the events of an iteration\<close>

text \<open>Events that are neither tracker calls, nor \<open>Frame\<close>, nor pose assignments.\<close>

definition plain :: "event list \<Rightarrow> bool" where
  "plain evs = (tracker_view evs = [] \<and> pose_view evs = [])"

lemma plain_simps:
  "plain []"
  "plain (SetPressnum v # evs) = plain evs"
  "plain (SetTasktime t # evs) = plain evs"
  "plain (SetScale k # evs) = plain evs"
  "plain (SetUsernum u # evs) = plain evs"
  "plain (Repl # evs) = plain evs"
  "plain (SetShallTrain b # evs) = plain evs"
  "plain (xs @ ys) = (plain xs \<and> plain ys)"
  by (auto simp: plain_def tracker_view_def pose_view_def)

lemma events_emit: "events (emit evs s) = events s @ evs"
  by (simp add: emit_def)

lemma events_timer_block: "events (timer_block f s) = events s"
  by (simp add: timer_block_def Let_def split: option.splits)

lemma events_reset_block: "\<exists>E. events (reset_block f s) = events s @ E \<and> plain E"
proof (cases "pressed_l f")
  case True
  then have "events (reset_block f s) = events s @ [SetPressnum [0, 0, 0], SetPressnum [0, 0, 0]]"
    by (simp add: reset_block_def events_emit)
  then show ?thesis by (metis plain_simps(1,2))
next
  case False
  then have "events (reset_block f s) = events s @ []" by (simp add: reset_block_def)
  then show ?thesis by (metis plain_simps(1))
qed

lemma events_record_press: "\<exists>v. events (record_press c T f s) = events s @ [SetPressnum v]"
  by (simp add: record_press_def Let_def events_emit split: option.splits)

lemma events_space_block: "\<exists>E. events (space_block c T f s) = events s @ E \<and> plain E"
proof (cases "pressed_space f \<and> pressed_space_again f
    \<and> 0.5 \<le> clock f 376 - last_pressed_time s \<and> \<not> key_held s")
  case True
  then have "space_block c T f s = record_press c T f s"
    by (simp add: space_block_def)
  then show ?thesis
    using events_record_press [of c T f s] by (metis plain_simps(1,2))
next
  case False
  then have "events (space_block c T f s) = events s @ []"
    by (auto simp: space_block_def)
  then show ?thesis by (metis plain_simps(1))
qed

lemma events_evaluation_block:
  "\<exists>E. events (evaluation_block a c T f s) = events s @ E \<and> plain E"
proof (cases "evaluation a")
  case True
  obtain E1 where E1: "events (reset_block f (timer_block f s)) = events s @ E1" "plain E1"
    using events_reset_block [of f "timer_block f s"] by (auto simp: events_timer_block)
  obtain E2 where E2: "events (space_block c T f (reset_block f (timer_block f s))) =
      events (reset_block f (timer_block f s)) @ E2" "plain E2"
    using events_space_block by blast
  have "events (evaluation_block a c T f s) = events s @ (E1 @ E2)"
    using True E1 E2 by (simp add: evaluation_block_def)
  moreover have "plain (E1 @ E2)" using E1 E2 by (simp add: plain_simps)
  ultimately show ?thesis by blast
next
  case False
  then have "events (evaluation_block a c T f s) = events s @ []"
    by (simp add: evaluation_block_def)
  then show ?thesis by (metis plain_simps(1))
qed

lemma transform_matrix_emit: "transform_matrix (emit evs s) = transform_matrix s"
  by (simp add: emit_def)

lemma transform_matrix_timer_block: "transform_matrix (timer_block f s) = transform_matrix s"
  by (cases "start_time s") (simp_all add: timer_block_def Let_def)

lemma transform_matrix_reset_block: "transform_matrix (reset_block f s) = transform_matrix s"
  by (simp add: reset_block_def transform_matrix_emit)

lemma transform_matrix_record_press:
  "transform_matrix (record_press c T f s) = transform_matrix s"
proof -
  define s1 where "s1 = s\<lparr>stream_list := stream_list s
      @ [calculate_relative_positions (base_pose c) [(j s, matmul T x_matrix)]],
      j := j s + 1, press_count := press_count s + 1\<rparr>"
  define s2 where "s2 = (if press_count s1 mod 10 = 0
      then (case start_time s1 of None \<Rightarrow> s1
            | Some t0 \<Rightarrow> s1\<lparr>times_recorded := times_recorded s1 @ [clock f 397 - t0],
                start_time := None\<rparr>)
      else s1)"
  have 1: "transform_matrix s1 = transform_matrix s" by (simp add: s1_def)
  have 2: "transform_matrix s2 = transform_matrix s1"
    by (cases "start_time s1") (simp_all add: s2_def)
  have "record_press c T f s =
      (emit [SetPressnum [j s2, 0, 0]] s2)\<lparr>key_held := True, last_pressed_time := clock f 402\<rparr>"
    by (simp only: record_press_def Let_def s1_def s2_def)
  then show ?thesis using 1 2 by (simp add: transform_matrix_emit)
qed

lemma transform_matrix_space_block:
  "transform_matrix (space_block c T f s) = transform_matrix s"
  by (simp add: space_block_def transform_matrix_record_press)

lemma transform_matrix_evaluation_block:
  "transform_matrix (evaluation_block a c T f s) = transform_matrix s"
  by (simp add: evaluation_block_def transform_matrix_space_block transform_matrix_reset_block
      transform_matrix_timer_block)

lemma transform_matrix_progress_block:
  "transform_matrix (progress_block f s) = transform_matrix s"
  by (simp add: progress_block_def Let_def)

lemma events_progress_block: "events (progress_block f s) = events s"
  by (simp add: progress_block_def Let_def)

text \<open>The pose assignments of an iteration, in order: they depend on the pose alone.\<close>

definition pose_assignments :: "numpy \<Rightarrow> mat \<Rightarrow> event list" where
  "pose_assignments np tm =
     [SetLookAt (look_at_of (tran_vec_of tm)),
      SetViewDir (rotation_matrix_to_vector (matmul (top_left3 tm) (rotation_matrix_x np 45))),
      SetUpDir (vector_up_of (matmul (top_left3 tm) (rotation_matrix_x np 45))),
      SetLookAt (look_at_of (tran_vec_of tm)),
      SetViewDir (rotation_matrix_to_vector (top_left3 tm)),
      SetUpDir (vector_up_of (top_left3 tm))]"

lemma pose_view_camera_events: "pose_view (camera_events np tm f) = pose_assignments np tm"
  by (simp add: camera_events_def pose_view_def pose_assignments_def Let_def)

lemma tracker_view_camera_events: "tracker_view (camera_events np tm f) = []"
  by (simp add: camera_events_def tracker_view_def Let_def)

text \<open>The branch for a sample: what it adds, by the two observations.\<close>

lemma sample_block_Inl:
  "tracked_pose np c T = Inl e \<Longrightarrow> sample_block np a c T f s = Inl e"
  by (simp add: sample_block_def)

lemma sample_block_Inr:
  assumes "tracked_pose np c T = Inr tm"
  shows "\<exists>s' E. sample_block np a c T f s = Inr s' \<and> events s' = events s @ E
           \<and> tracker_view E = [] \<and> pose_view E = pose_assignments np tm
           \<and> transform_matrix s' = Some tm"
proof -
  define s0 where "s0 = s\<lparr>transform_matrix := Some tm\<rparr>"
  define s1 where "s1 = evaluation_block a c T f s0"
  define d where "d = (case start_time s1 of None \<Rightarrow> 0 | Some t0 \<Rightarrow> clock f 405 - t0)"
  obtain E1 where E1: "events s1 = events s0 @ E1" "plain E1"
    unfolding s1_def using events_evaluation_block by blast
  have sb: "sample_block np a c T f s = Inr (emit (SetTasktime d # camera_events np tm f) s1)"
    using assms by (simp add: sample_block_def Let_def s1_def s0_def d_def)
  have ev: "events (emit (SetTasktime d # camera_events np tm f) s1) =
      events s @ (E1 @ SetTasktime d # camera_events np tm f)"
    using E1 by (simp add: events_emit s0_def)
  have tv: "tracker_view (E1 @ SetTasktime d # camera_events np tm f) = []"
    using E1(2) tracker_view_camera_events [of np tm f]
    by (simp add: plain_def tracker_view_def)
  have pv: "pose_view (E1 @ SetTasktime d # camera_events np tm f) = pose_assignments np tm"
    using E1(2) pose_view_camera_events [of np tm f]
    by (simp add: plain_def pose_view_def)
  have tm: "transform_matrix (emit (SetTasktime d # camera_events np tm f) s1) = Some tm"
    by (simp add: transform_matrix_emit s1_def transform_matrix_evaluation_block s0_def)
  show ?thesis using sb ev tv pv tm by blast
qed

text \<open>What the tracker sees of an iteration, and the pose assignments of an iteration.\<close>

definition expected_pose_events :: "numpy \<Rightarrow> args \<Rightarrow> calib \<Rightarrow> frame_in \<Rightarrow> event list" where
  "expected_pose_events np a c f =
     (if gui a \<and> ndi a
      then (case tracking0 f of
              Missing \<Rightarrow> []
            | Tracked T \<Rightarrow>
                (case tracked_pose np c T of Inl e \<Rightarrow> [] | Inr tm \<Rightarrow> pose_assignments np tm))
      else [])"

lemma ndi_block_events:
  "\<exists>E. events (fst (ndi_block np a c f s)) = events s @ E
      \<and> tracker_view E = (if gui a \<and> ndi a then [GetFrame] else [])
      \<and> pose_view E = expected_pose_events np a c f"
proof (cases "gui a \<and> ndi a")
  case False
  then have "events (fst (ndi_block np a c f s)) = events s @ []"
    by (auto simp: ndi_block_def)
  moreover have "tracker_view [] = (if gui a \<and> ndi a then [GetFrame] else [])"
    "pose_view [] = expected_pose_events np a c f"
    using False by (auto simp: tracker_view_def pose_view_def expected_pose_events_def)
  ultimately show ?thesis by blast
next
  case True
  show ?thesis
  proof (cases "tracking0 f")
    case Missing
    then have "events (fst (ndi_block np a c f s)) = events s @ [GetFrame]"
      using True by (simp add: ndi_block_def Let_def events_emit)
    moreover have "tracker_view [GetFrame] = (if gui a \<and> ndi a then [GetFrame] else [])"
      "pose_view [GetFrame] = expected_pose_events np a c f"
      using True Missing by (simp_all add: tracker_view_def pose_view_def expected_pose_events_def)
    ultimately show ?thesis by blast
  next
    case (Tracked T)
    show ?thesis
    proof (cases "tracked_pose np c T")
      case (Inl e)
      then have "events (fst (ndi_block np a c f s)) = events s @ [GetFrame]"
        using True Tracked
        by (simp add: ndi_block_def Let_def events_emit sample_block_Inl)
      moreover have "tracker_view [GetFrame] = (if gui a \<and> ndi a then [GetFrame] else [])"
        "pose_view [GetFrame] = expected_pose_events np a c f"
        using True Tracked Inl
        by (simp_all add: tracker_view_def pose_view_def expected_pose_events_def)
      ultimately show ?thesis by blast
    next
      case (Inr tm)
      obtain s' E where s': "sample_block np a c T f (emit [GetFrame] s) = Inr s'"
        "events s' = events (emit [GetFrame] s) @ E" "tracker_view E = []"
        "pose_view E = pose_assignments np tm"
        using sample_block_Inr [OF Inr] by blast
      have "events (fst (ndi_block np a c f s)) = events s @ (GetFrame # E)"
        using True Tracked s' by (simp add: ndi_block_def Let_def events_emit)
      moreover have "tracker_view (GetFrame # E) = (if gui a \<and> ndi a then [GetFrame] else [])"
        using True s'(3) by (simp add: tracker_view_def)
      moreover have "pose_view (GetFrame # E) = expected_pose_events np a c f"
        using True Tracked Inr s'(4) by (simp add: pose_view_def expected_pose_events_def)
      ultimately show ?thesis by blast
    qed
  qed
qed

lemma frame_body_events:
  "\<exists>E. events (snd (frame_body np a c n f s)) = events s @ E
      \<and> tracker_view E = (if gui a \<and> ndi a then [GetFrame] else [])
      \<and> pose_view E = expected_pose_events np a c f"
proof -
  define s1 where "s1 = (if \<not> pressnum_initialized s
      then (emit [SetPressnum [0, 0, 0]] s)\<lparr>pressnum_initialized := True\<rparr> else s)"
  obtain E0 where E0: "events s1 = events s @ E0" "plain E0"
  proof (cases "pressnum_initialized s")
    case True
    then have "events s1 = events s @ []" by (simp add: s1_def)
    then show ?thesis using that plain_simps(1) by blast
  next
    case False
    then have "events s1 = events s @ [SetPressnum [0, 0, 0]]"
      by (simp add: s1_def events_emit)
    then show ?thesis using that by (metis plain_simps(1,2))
  qed
  obtain E1 where E1: "events (fst (ndi_block np a c f s1)) = events s1 @ E1"
    "tracker_view E1 = (if gui a \<and> ndi a then [GetFrame] else [])"
    "pose_view E1 = expected_pose_events np a c f"
    using ndi_block_events by blast
  obtain s2 r where nb: "ndi_block np a c f s1 = (s2, r)" by (cases "ndi_block np a c f s1")
  have s2: "events s2 = events s @ E0 @ E1" using E1(1) E0(1) nb by simp
  have "\<exists>E2. events (snd (frame_body np a c n f s)) = events s2 @ E2 \<and> plain E2"
  proof (cases r)
    case (Some e)
    then have "events (snd (frame_body np a c n f s)) = events s2 @ []"
      using nb by (simp add: frame_body_def Let_def s1_def)
    then show ?thesis using plain_simps(1) by blast
  next
    case None
    define s3 where "s3 = (if want_repl f then emit [Repl] s2 else s2)"
    have "\<exists>E. events s3 = events s2 @ E \<and> plain E"
    proof (cases "want_repl f")
      case True
      then have "events s3 = events s2 @ [Repl]" by (simp add: s3_def events_emit)
      then show ?thesis by (metis plain_simps(1,6))
    next
      case False
      then have "events s3 = events s2 @ []" by (simp add: s3_def)
      then show ?thesis using plain_simps(1) by blast
    qed
    then obtain E3 where E3: "events s3 = events s2 @ E3" "plain E3" by blast
    have fb: "frame_body np a c n f s =
        (if n \<le> training_step f
         then (if gui a then (Continue, progress_block f (emit [SetShallTrain False] s3))
               else (Break, s3))
         else (Continue, progress_block f s3))"
      using nb None by (simp add: frame_body_def Let_def s1_def s3_def)
    show ?thesis
    proof (cases "n \<le> training_step f \<and> gui a")
      case True
      then have "events (snd (frame_body np a c n f s)) = events s2 @ (E3 @ [SetShallTrain False])"
        using E3 by (simp add: fb events_progress_block events_emit)
      moreover have "plain (E3 @ [SetShallTrain False])"
        using E3(2) by (simp add: plain_simps)
      ultimately show ?thesis by blast
    next
      case False
      then have "events (snd (frame_body np a c n f s)) = events s2 @ E3"
        using E3 by (auto simp: fb events_progress_block)
      then show ?thesis using E3(2) by blast
    qed
  qed
  then obtain E2 where E2: "events (snd (frame_body np a c n f s)) = events s2 @ E2" "plain E2"
    by blast
  have "events (snd (frame_body np a c n f s)) = events s @ (E0 @ E1 @ E2)"
    using E2(1) s2 by simp
  moreover have "tracker_view (E0 @ E1 @ E2) = (if gui a \<and> ndi a then [GetFrame] else [])"
    using E0(2) E1(2) E2(2) by (simp add: plain_def tracker_view_def)
  moreover have "pose_view (E0 @ E1 @ E2) = expected_pose_events np a c f"
    using E0(2) E1(3) E2(2) by (simp add: plain_def pose_view_def)
  ultimately show ?thesis by blast
qed

section \<open>Properties of the driver: the training loop and the tracker\<close>


lemma training_loop_events:
  "\<exists>E. events (fst (training_loop np a c n fs s)) = events s @ E
     \<and> (fs \<noteq> [] \<longrightarrow> Frame \<in> set E)"
proof (induction fs arbitrary: s)
  case Nil
  then show ?case by simp
next
  case (Cons f fs)
  obtain E where E: "events (snd (frame_body np a c n f (emit [Frame] s))) =
      events (emit [Frame] s) @ E"
    using frame_body_events by blast
  obtain r s' where fb: "frame_body np a c n f (emit [Frame] s) = (r, s')"
    by (cases "frame_body np a c n f (emit [Frame] s)")
  have s': "events s' = events s @ (Frame # E)"
    using E fb by (simp add: events_emit)
  show ?case
  proof (cases r)
    case Continue
    obtain E' where "events (fst (training_loop np a c n fs s')) = events s' @ E'"
      using Cons.IH by blast
    then have "events (fst (training_loop np a c n (f # fs) s)) = events s @ (Frame # E @ E')"
      using fb Continue s' by simp
    then show ?thesis by (metis list.set_intros(1))
  next
    case Break
    then have "events (fst (training_loop np a c n (f # fs) s)) = events s @ (Frame # E)"
      using fb s' by simp
    then show ?thesis by (metis list.set_intros(1))
  next
    case (Raise e)
    then have "events (fst (training_loop np a c n (f # fs) s)) = events s @ (Frame # E)"
      using fb s' by simp
    then show ?thesis by (metis list.set_intros(1))
  qed
qed


lemma gui_vr_implies_gui: "gui (vr_implies_gui a) = (gui a \<or> vr a)"
  by (simp add: vr_implies_gui_def)

lemma fields_vr_implies_gui:
  "ndi (vr_implies_gui a) = ndi a" "row (vr_implies_gui a) = row a"
  "n_steps (vr_implies_gui a) = n_steps a" "load_snapshot (vr_implies_gui a) = load_snapshot a"
  "user_id (vr_implies_gui a) = user_id a"
  by (simp_all add: vr_implies_gui_def)


text \<open>Inputs used to run the driver: identity matrices, and a frame without a sample.\<close>

definition identity4 :: mat where
  "identity4 = [[1, 0, 0, 0], [0, 1, 0, 0], [0, 0, 1, 0], [0, 0, 0, 1]]"

definition example_numpy :: numpy where
  "example_numpy =
     \<lparr>linalg_inv = (\<lambda>m. if m = identity4 then Inr identity4 else Inl LinAlgError),
      np_deg2rad = (\<lambda>x. x), np_cos = (\<lambda>x. 1), np_sin = (\<lambda>x. 0)\<rparr>"

definition example_files :: calib_files where
  "example_files =
     \<lparr>tool2camera_csv = identity4, world_center_pkl = identity4, post_info_pkl = [4],
      base_pose_pickle = identity4\<rparr>"

definition example_frame :: "sample \<Rightarrow> frame_in" where
  "example_frame smp =
     \<lparr>tracking0 = smp, timer = 0, pressed_l = False, pressed_space = False,
      pressed_space_again = False, clock = (\<lambda>n. 0), camera_matrix = identity4,
      want_repl = False, training_step = 0, monotonic = 0\<rparr>"



text \<open>
  C10. Claimed: without \<open>--n_steps\<close> the number of steps is 35000, except when a
  snapshot is loaded and \<open>--gui\<close> is not given. With \<open>--vr\<close> in place of \<open>--gui\<close> the
  script has set \<open>args.gui\<close> by then, so the number of steps is 35000 there as well.
\<close>

theorem n_steps_with_vr_counterexample:
  "n_steps (default_args\<lparr>load_snapshot := ''base.ingp'', vr := True\<rparr>) = -1
   \<and> load_snapshot (default_args\<lparr>load_snapshot := ''base.ingp'', vr := True\<rparr>) \<noteq> []
   \<and> \<not> gui (default_args\<lparr>load_snapshot := ''base.ingp'', vr := True\<rparr>)
   \<and> choose_n_steps (vr_implies_gui (default_args\<lparr>load_snapshot := ''base.ingp'', vr := True\<rparr>))
       = 35000
   \<and> Frame \<in> set (events (fst (training example_numpy
        (default_args\<lparr>load_snapshot := ''base.ingp'', vr := True\<rparr>)
        example_files [example_frame Missing])))"
  by (simp add: default_args_def training_def vr_implies_gui_def choose_n_steps_def
      tracker_setup_def initial_state_def emit_def example_numpy_def example_files_def
      example_frame_def frame_body_def ndi_block_def progress_block_def Let_def)

text \<open>
  C10, amended. When \<open>--n_steps\<close> is not given (the parsed value is the default -1),
  the number of steps is 35000, except when a snapshot is loaded and neither \<open>--gui\<close>
  nor \<open>--vr\<close> is given: then it stays -1 and the training loop is skipped, so that
  \<open>testbed.frame()\<close> is never called. In every other configuration the loop is
  entered (once the calibration is loaded).
\<close>

theorem n_steps_default:
  assumes "n_steps parsed = -1"
  shows "choose_n_steps (vr_implies_gui parsed) =
           (if load_snapshot parsed \<noteq> [] \<and> \<not> gui parsed \<and> \<not> vr parsed then -1 else 35000)
       \<and> (load_snapshot parsed \<noteq> [] \<and> \<not> gui parsed \<and> \<not> vr parsed \<longrightarrow>
            Frame \<notin> set (events (fst (training np parsed files frames))))
       \<and> (\<not> (load_snapshot parsed \<noteq> [] \<and> \<not> gui parsed \<and> \<not> vr parsed) \<and> frames \<noteq> []
            \<and> (\<exists>c2t. linalg_inv np (tool2camera_csv files) = Inr c2t) \<longrightarrow>
            Frame \<in> set (events (fst (training np parsed files frames))))"
proof -
  define a where "a = vr_implies_gui parsed"
  have n: "choose_n_steps a =
      (if load_snapshot parsed \<noteq> [] \<and> \<not> gui parsed \<and> \<not> vr parsed then -1 else 35000)"
    using assms
    by (auto simp: choose_n_steps_def a_def gui_vr_implies_gui fields_vr_implies_gui)
  have skip: "Frame \<notin> set (events (fst (training np parsed files frames)))"
    if "load_snapshot parsed \<noteq> [] \<and> \<not> gui parsed \<and> \<not> vr parsed"
  proof -
    have "choose_n_steps a = -1" using n that by simp
    then show ?thesis
      by (auto simp: training_def Let_def a_def [symmetric] events_emit initial_state_def
          tracker_setup_def split: sum.splits)
  qed
  have enter: "Frame \<in> set (events (fst (training np parsed files frames)))"
    if h: "\<not> (load_snapshot parsed \<noteq> [] \<and> \<not> gui parsed \<and> \<not> vr parsed)" "frames \<noteq> []"
      "\<exists>c2t. linalg_inv np (tool2camera_csv files) = Inr c2t"
  proof -
    have pos: "0 < choose_n_steps a" using n h(1) by auto
    obtain c2t where c2t: "linalg_inv np (tool2camera_csv files) = Inr c2t"
      using h(3) by blast
    obtain c s1 where tr: "training np parsed files frames =
        training_loop np a c (choose_n_steps a) frames s1"
      using c2t pos by (simp add: training_def Let_def a_def [symmetric])
    obtain E where "events (fst (training_loop np a c (choose_n_steps a) frames s1)) =
        events s1 @ E" "Frame \<in> set E"
      using training_loop_events [of np a c "choose_n_steps a" frames s1] h(2) by blast
    then show ?thesis using tr by simp
  qed
  show ?thesis using n skip enter unfolding a_def by blast
qed

theorem n_steps_default_witness:
  "n_steps (default_args\<lparr>load_snapshot := ''base.ingp''\<rparr>) = -1
   \<and> choose_n_steps (vr_implies_gui (default_args\<lparr>load_snapshot := ''base.ingp''\<rparr>)) = -1
   \<and> Frame \<notin> set (events (fst (training example_numpy
        (default_args\<lparr>load_snapshot := ''base.ingp''\<rparr>) example_files [example_frame Missing])))
   \<and> n_steps default_args = -1
   \<and> choose_n_steps (vr_implies_gui default_args) = 35000
   \<and> Frame \<in> set (events (fst (training example_numpy default_args example_files
        [example_frame Missing])))"
proof -
  have 1: "n_steps (default_args\<lparr>load_snapshot := ''base.ingp''\<rparr>) = -1"
    and 2: "n_steps default_args = -1"
    by (simp_all add: default_args_def)
  have 3: "\<exists>c2t. linalg_inv example_numpy (tool2camera_csv example_files) = Inr c2t"
    by (simp add: example_numpy_def example_files_def)
  show ?thesis
    using n_steps_default [OF 1, of example_numpy example_files "[example_frame Missing]"]
      n_steps_default [OF 2, of example_numpy example_files "[example_frame Missing]"] 3
    by (simp add: default_args_def)
qed

section \<open>Properties of the driver: the GUI resolution\<close>

lemma round_to_double_small: "\<bar>n\<bar> < 2 ^ 53 \<Longrightarrow> round_to_double n = n"
proof -
  assume "\<bar>n\<bar> < 2 ^ 53"
  then have "bitlen \<bar>n\<bar> \<le> 53" by (simp add: bitlen_le_iff_power)
  then show ?thesis by (simp add: round_to_double_def Let_def)
qed

lemma round_to_double_pow2: "round_to_double (2 ^ k) = 2 ^ k"
proof (cases "k < 53")
  case True
  then have "(2::int) ^ k < 2 ^ 53" by (intro power_strict_increasing) simp_all
  then show ?thesis by (simp add: round_to_double_small)
next
  case False
  have b: "bitlen (2 ^ k) = int k + 1"
    using bitlen_pow2 [of 1 k] by (simp add: bitlen_alt_def)
  define e where "e = k - 52"
  have k: "k = e + 52" using False by (simp add: e_def)
  have ne: "nat (int k + 1 - 53) = e" using False by (simp add: e_def)
  have d: "(2::int) ^ k div 2 ^ e = 2 ^ 52" "(2::int) ^ k mod 2 ^ e = 0"
    by (simp_all add: k power_add)
  have "\<not> int k + 1 - 53 \<le> 0" using False by simp
  then show ?thesis
    by (simp add: round_to_double_def Let_def b ne d) (simp add: k power_add)
qed

lemma round_to_double_twice: "\<bar>round_to_double n\<bar> \<le> 2 * \<bar>n\<bar>"
proof (cases "bitlen \<bar>n\<bar> - 53 \<le> 0")
  case True
  then show ?thesis by (simp add: round_to_double_def Let_def)
next
  case False
  show ?thesis using round_to_double_le [OF False] by linarith
qed

lemma int_half_le: "int_half n = Inr m \<Longrightarrow> \<bar>m\<bar> \<le> \<bar>n\<bar>"
proof (cases "n = 0")
  case True
  assume "int_half n = Inr m"
  then show ?thesis
    using True by (simp add: int_half_def round_to_double_def Let_def)
next
  case False
  assume "int_half n = Inr m"
  then show ?thesis using int_half_less [of n m] False by simp
qed

lemma int_half_Inl:
  assumes "int_half n = Inl e"
  shows "e = OverflowError \<and> 2 ^ 1024 \<le> \<bar>n\<bar>"
proof -
  have e: "e = OverflowError" and big: "2 ^ 1025 \<le> \<bar>round_to_double n\<bar>"
    using assms by (auto simp: int_half_def Let_def split: if_splits)
  have "(2::int) ^ 1025 = 2 * 2 ^ 1024" by simp
  then have "2 * (2::int) ^ 1024 \<le> 2 * \<bar>n\<bar>"
    using big round_to_double_twice [of n] by linarith
  then show ?thesis using e by simp
qed

lemma halve_loop_Inr: "halve_loop sw sh = Inr (a, b) \<Longrightarrow> a * b \<le> 1920 * 1080 * 4"
proof (induction sw sh rule: halve_loop.induct)
  case (1 sw sh)
  show ?case
  proof (cases "1920 * 1080 * 4 < sw * sh")
    case False
    then have "halve_loop sw sh = Inr (sw, sh)"
      by (simp add: halve_loop.simps [of sw sh])
    then show ?thesis using "1.prems" False by simp
  next
    case True
    then obtain sw' sh' where h: "int_half sw = Inr sw'" "int_half sh = Inr sh'"
      "halve_loop sw' sh' = Inr (a, b)"
      using "1.prems" by (auto simp: halve_loop.simps [of sw sh] split: sum.splits)
    show ?thesis using "1.IH" [OF True h] .
  qed
qed

lemma halve_loop_Inl:
  "halve_loop sw sh = Inl e \<Longrightarrow> e = OverflowError \<and> (2 ^ 1024 \<le> \<bar>sw\<bar> \<or> 2 ^ 1024 \<le> \<bar>sh\<bar>)"
proof (induction sw sh rule: halve_loop.induct)
  case (1 sw sh)
  have big: "1920 * 1080 * 4 < sw * sh"
    using "1.prems" by (auto simp: halve_loop.simps [of sw sh] split: if_splits)
  show ?case
  proof (cases "int_half sw")
    case (Inl e')
    then have "e' = e" using "1.prems" big by (simp add: halve_loop.simps [of sw sh])
    then show ?thesis using int_half_Inl [OF Inl] by simp
  next
    case sw': (Inr sw')
    show ?thesis
    proof (cases "int_half sh")
      case (Inl e')
      then have "e' = e"
        using "1.prems" big sw' by (simp add: halve_loop.simps [of sw sh])
      then show ?thesis using int_half_Inl [OF Inl] by simp
    next
      case sh': (Inr sh')
      have "halve_loop sw' sh' = Inl e"
        using "1.prems" big sw' sh' by (simp add: halve_loop.simps [of sw sh])
      then have "e = OverflowError \<and> (2 ^ 1024 \<le> \<bar>sw'\<bar> \<or> 2 ^ 1024 \<le> \<bar>sh'\<bar>)"
        using "1.IH" [OF big sw' sh'] by simp
      then show ?thesis
        using int_half_le [OF sw'] int_half_le [OF sh'] by linarith
    qed
  qed
qed

text \<open>
  C8. Claimed: for every pair of integers the loop ends with a resolution whose
  product is at most \<open>1920 * 1080 * 4\<close>. For a width of \<open>2 ^ 1025\<close> the first
  \<open>sw / 2\<close> does not fit a float: the loop is left by \<open>OverflowError\<close>, with the
  product still above the bound and \<open>init_window\<close> not called.
\<close>

theorem gui_resolution_overflow_counterexample:
  "gui_resolution (2 ^ 1025) 1 = Inl OverflowError \<and> (1920 * 1080 * 4 :: int) < 2 ^ 1025 * 1"
proof -
  have "int_half (2 ^ 1025) = Inl OverflowError"
    using round_to_double_pow2 [of 1025] by (simp add: int_half_def Let_def)
  moreover have "(1920 * 1080 * 4 :: int) < 2 ^ 1025 * 1" by simp
  ultimately show ?thesis
    by (simp add: gui_resolution_def py_or_def halve_loop.simps)
qed

text \<open>
  C8, amended. For every pair of integers the loop terminates (\<open>halve_loop\<close> is a total
  function). When it ends normally, the resolution handed to \<open>init_window\<close> has a
  product of at most \<open>1920 * 1080 * 4\<close>; it ends otherwise only by \<open>OverflowError\<close>,
  and only for a width or height of magnitude \<open>2 ^ 1024\<close> or more. The values 0 are
  replaced by 1920 and 1080.
\<close>

theorem gui_resolution_bound:
  "(\<forall>sw sh. gui_resolution w h = Inr (sw, sh) \<longrightarrow> sw * sh \<le> 1920 * 1080 * 4)
   \<and> (\<forall>e. gui_resolution w h = Inl e \<longrightarrow>
         e = OverflowError \<and> (2 ^ 1024 \<le> \<bar>w\<bar> \<or> 2 ^ 1024 \<le> \<bar>h\<bar>))
   \<and> (\<bar>w\<bar> < 2 ^ 1024 \<and> \<bar>h\<bar> < 2 ^ 1024 \<longrightarrow> (\<exists>sw sh. gui_resolution w h = Inr (sw, sh)))
   \<and> gui_resolution 0 0 = Inr (1920, 1080)"
proof -
  have 1: "sw * sh \<le> 1920 * 1080 * 4" if "gui_resolution w h = Inr (sw, sh)" for sw sh
    using halve_loop_Inr that by (simp add: gui_resolution_def)
  have 2: "e = OverflowError \<and> (2 ^ 1024 \<le> \<bar>w\<bar> \<or> 2 ^ 1024 \<le> \<bar>h\<bar>)"
    if "gui_resolution w h = Inl e" for e
  proof -
    have "e = OverflowError \<and> (2 ^ 1024 \<le> \<bar>py_or w 1920\<bar> \<or> 2 ^ 1024 \<le> \<bar>py_or h 1080\<bar>)"
      using halve_loop_Inl that by (simp add: gui_resolution_def)
    then show ?thesis by (auto simp: py_or_def split: if_splits)
  qed
  have 3: "\<exists>sw sh. gui_resolution w h = Inr (sw, sh)" if "\<bar>w\<bar> < 2 ^ 1024 \<and> \<bar>h\<bar> < 2 ^ 1024"
  proof (cases "gui_resolution w h")
    case (Inl e)
    then show ?thesis using 2 [OF Inl] that by linarith
  next
    case (Inr p)
    then show ?thesis by (cases p) simp
  qed
  have 4: "gui_resolution 0 0 = Inr (1920, 1080)"
    by (simp add: gui_resolution_def py_or_def halve_loop.simps)
  show ?thesis using 1 2 3 4 by blast
qed

theorem gui_resolution_bound_witness:
  "gui_resolution 4000 3000 = Inr (2000, 1500) \<and> (2000 * 1500 :: int) \<le> 1920 * 1080 * 4
   \<and> \<bar>4000 :: int\<bar> < 2 ^ 1024 \<and> \<bar>3000 :: int\<bar> < 2 ^ 1024"
proof -
  have e: "gui_resolution 4000 3000 = Inr (2000, 1500)"
    by (simp add: gui_resolution_def py_or_def int_half_def round_to_double_small
        halve_loop.simps)
  have "(2000 * 1500 :: int) \<le> 1920 * 1080 * 4"
    using gui_resolution_bound [of 4000 3000] e by blast
  moreover have "\<bar>4000 :: int\<bar> < 2 ^ 1024 \<and> \<bar>3000 :: int\<bar> < 2 ^ 1024" by simp
  ultimately show ?thesis using e by blast
qed

section \<open>Properties of the driver: evaluation against test transforms\<close>

lemma py_or_one_nonzero: "real_of_int (py_or x 1) \<noteq> 0"
  by (simp add: py_or_def)

lemma eval_step_Inr:
  "eval_step env i s =
     Inr \<lparr>totmse = totmse s + compute_error env ''MSE'' i,
          totpsnr = totpsnr s + mse2psnr env (compute_error env ''MSE'' i),
          totssim = totssim s + compute_error env ''SSIM'' i,
          totcount = totcount s + 1,
          minpsnr = min (mse2psnr env (compute_error env ''MSE'' i)) (minpsnr s),
          maxpsnr = max (mse2psnr env (compute_error env ''MSE'' i)) (maxpsnr s)\<rparr>"
  using py_or_one_nonzero [of "totcount s + 1"]
  by (simp add: eval_step_def Let_def py_truediv_def min_def max_def)

lemma eval_loop_Inr:
  "eval_loop env xs s =
     Inr \<lparr>totmse = totmse s + (\<Sum>i\<leftarrow>xs. compute_error env ''MSE'' i),
          totpsnr = totpsnr s + (\<Sum>i\<leftarrow>xs. mse2psnr env (compute_error env ''MSE'' i)),
          totssim = totssim s + (\<Sum>i\<leftarrow>xs. compute_error env ''SSIM'' i),
          totcount = totcount s + int (length xs),
          minpsnr = fold (\<lambda>i m. min (mse2psnr env (compute_error env ''MSE'' i)) m) xs (minpsnr s),
          maxpsnr = fold (\<lambda>i m. max (mse2psnr env (compute_error env ''MSE'' i)) m) xs (maxpsnr s)\<rparr>"
proof (induction xs arbitrary: s)
  case Nil
  then show ?case by simp
next
  case (Cons i xs)
  show ?case
    by (simp add: eval_step_Inr Cons.IH algebra_simps)
qed

lemma fold_min_Min:
  fixes f :: "nat \<Rightarrow> real"
  shows "fold (\<lambda>i m. min (f i) m) xs m0 = Min (insert m0 (f ` set xs))"
proof (induction xs arbitrary: m0)
  case Nil
  then show ?case by simp
next
  case (Cons x xs)
  have "Min (insert (min (f x) m0) (f ` set xs)) = Min (insert m0 (insert (f x) (f ` set xs)))"
  proof (cases "set xs = {}")
    case True
    then show ?thesis by (simp add: min.commute)
  next
    case False
    then have ne: "f ` set xs \<noteq> {}" by simp
    have "Min (insert (min (f x) m0) (f ` set xs)) = min (min (f x) m0) (Min (f ` set xs))"
      using ne by simp
    also have "\<dots> = min m0 (min (f x) (Min (f ` set xs)))"
      by (simp add: min.assoc min.left_commute min.commute)
    also have "\<dots> = Min (insert m0 (insert (f x) (f ` set xs)))"
      using ne by simp
    finally show ?thesis .
  qed
  then show ?case by (simp add: Cons.IH)
qed

lemma fold_max_Max:
  fixes f :: "nat \<Rightarrow> real"
  shows "fold (\<lambda>i m. max (f i) m) xs m0 = Max (insert m0 (f ` set xs))"
proof (induction xs arbitrary: m0)
  case Nil
  then show ?case by simp
next
  case (Cons x xs)
  have "Max (insert (max (f x) m0) (f ` set xs)) = Max (insert m0 (insert (f x) (f ` set xs)))"
  proof (cases "set xs = {}")
    case True
    then show ?thesis by (simp add: max.commute)
  next
    case False
    then have ne: "f ` set xs \<noteq> {}" by simp
    have "Max (insert (max (f x) m0) (f ` set xs)) = max (max (f x) m0) (Max (f ` set xs))"
      using ne by simp
    also have "\<dots> = max m0 (max (f x) (Max (f ` set xs)))"
      by (simp add: max.assoc max.left_commute max.commute)
    also have "\<dots> = Max (insert m0 (insert (f x) (f ` set xs)))"
      using ne by simp
    finally show ?thesis .
  qed
  then show ?case by (simp add: Cons.IH)
qed

lemma sum_list_upt: "(\<Sum>i\<leftarrow>[0..<n]. (f i :: real)) = (\<Sum>i<n. f i)"
  by (simp add: interv_sum_list_conv_sum_set_nat atLeast0LessThan)

text \<open>
  C3. With \<open>--test_transforms\<close> given, the evaluation never raises. It takes the MSE
  and the SSIM of every image \<open>i < n_images\<close>, and reports each total divided by
  \<open>(totcount or 1)\<close>: the number of images, or 1 for an empty dataset. The minimum and
  the maximum PSNR start from 1000 and 0. For an empty dataset the divisions are by 1
  and the averages are 0.
\<close>

theorem evaluation_report:
  assumes "test_transforms a \<noteq> []"
  shows "evaluate_test_transforms a env =
     Some (Inr \<lparr>psnr_avgmse =
                  mse2psnr env ((\<Sum>i<n_images env. compute_error env ''MSE'' i)
                                / real (if n_images env = 0 then 1 else n_images env)),
                psnr_avg =
                  (\<Sum>i<n_images env. mse2psnr env (compute_error env ''MSE'' i))
                  / real (if n_images env = 0 then 1 else n_images env),
                ssim_avg =
                  (\<Sum>i<n_images env. compute_error env ''SSIM'' i)
                  / real (if n_images env = 0 then 1 else n_images env),
                psnr_min =
                  Min (insert 1000 ((\<lambda>i. mse2psnr env (compute_error env ''MSE'' i))
                                      ` {..<n_images env})),
                psnr_max =
                  Max (insert 0 ((\<lambda>i. mse2psnr env (compute_error env ''MSE'' i))
                                   ` {..<n_images env})),
                images_evaluated = int (n_images env)\<rparr>)
   \<and> (n_images env = 0 \<longrightarrow>
        evaluate_test_transforms a env =
          Some (Inr \<lparr>psnr_avgmse = mse2psnr env 0, psnr_avg = 0, ssim_avg = 0,
                     psnr_min = 1000, psnr_max = 0, images_evaluated = 0\<rparr>))"
proof -
  have d: "real_of_int (py_or (int n) 1) = real (if n = 0 then 1 else n)" for n
    by (simp add: py_or_def)
  have s: "set [0..<n_images env] = {..<n_images env}" by (simp add: atLeast0LessThan)
  have 1: "evaluate_test_transforms a env =
     Some (Inr \<lparr>psnr_avgmse =
                  mse2psnr env ((\<Sum>i<n_images env. compute_error env ''MSE'' i)
                                / real (if n_images env = 0 then 1 else n_images env)),
                psnr_avg =
                  (\<Sum>i<n_images env. mse2psnr env (compute_error env ''MSE'' i))
                  / real (if n_images env = 0 then 1 else n_images env),
                ssim_avg =
                  (\<Sum>i<n_images env. compute_error env ''SSIM'' i)
                  / real (if n_images env = 0 then 1 else n_images env),
                psnr_min =
                  Min (insert 1000 ((\<lambda>i. mse2psnr env (compute_error env ''MSE'' i))
                                      ` {..<n_images env})),
                psnr_max =
                  Max (insert 0 ((\<lambda>i. mse2psnr env (compute_error env ''MSE'' i))
                                   ` {..<n_images env})),
                images_evaluated = int (n_images env)\<rparr>)"
    using assms
    by (simp add: evaluate_test_transforms_def eval_loop_Inr eval_init_def eval_report_of_def
        py_truediv_def d fold_min_Min fold_max_Max sum_list_upt s del: set_upt)
  show ?thesis
  proof (intro conjI impI)
    show "evaluate_test_transforms a env =
     Some (Inr \<lparr>psnr_avgmse =
                  mse2psnr env ((\<Sum>i<n_images env. compute_error env ''MSE'' i)
                                / real (if n_images env = 0 then 1 else n_images env)),
                psnr_avg =
                  (\<Sum>i<n_images env. mse2psnr env (compute_error env ''MSE'' i))
                  / real (if n_images env = 0 then 1 else n_images env),
                ssim_avg =
                  (\<Sum>i<n_images env. compute_error env ''SSIM'' i)
                  / real (if n_images env = 0 then 1 else n_images env),
                psnr_min =
                  Min (insert 1000 ((\<lambda>i. mse2psnr env (compute_error env ''MSE'' i))
                                      ` {..<n_images env})),
                psnr_max =
                  Max (insert 0 ((\<lambda>i. mse2psnr env (compute_error env ''MSE'' i))
                                   ` {..<n_images env})),
                images_evaluated = int (n_images env)\<rparr>)"
      by (rule 1)
  next
    assume "n_images env = 0"
    then show "evaluate_test_transforms a env =
          Some (Inr \<lparr>psnr_avgmse = mse2psnr env 0, psnr_avg = 0, ssim_avg = 0,
                     psnr_min = 1000, psnr_max = 0, images_evaluated = 0\<rparr>)"
      using 1 by simp
  qed
qed

theorem evaluation_report_witness:
  "test_transforms (default_args\<lparr>test_transforms := ''test.json''\<rparr>) \<noteq> []
   \<and> evaluate_test_transforms (default_args\<lparr>test_transforms := ''test.json''\<rparr>)
       \<lparr>n_images = 0, compute_error = (\<lambda>metric i. 1 / 4), mse2psnr = (\<lambda>x. 10 - x)\<rparr> =
     Some (Inr \<lparr>psnr_avgmse = 10, psnr_avg = 0, ssim_avg = 0,
                psnr_min = 1000, psnr_max = 0, images_evaluated = 0\<rparr>)
   \<and> evaluate_test_transforms (default_args\<lparr>test_transforms := ''test.json''\<rparr>)
       \<lparr>n_images = 2, compute_error = (\<lambda>metric i. 1 / 4), mse2psnr = (\<lambda>x. 10 - x)\<rparr> =
     Some (Inr \<lparr>psnr_avgmse = 39 / 4, psnr_avg = 39 / 4, ssim_avg = 1 / 4,
                psnr_min = 39 / 4, psnr_max = 39 / 4, images_evaluated = 2\<rparr>)"
proof -
  have t: "test_transforms (default_args\<lparr>test_transforms := ''test.json''\<rparr>) \<noteq> []"
    by simp
  have two: "{..<2::nat} = {0, 1}" by auto
  show ?thesis
    using t
      evaluation_report [OF t, of "\<lparr>n_images = 0, compute_error = (\<lambda>metric i. 1 / 4),
        mse2psnr = (\<lambda>x. 10 - x)\<rparr>"]
      evaluation_report [OF t, of "\<lparr>n_images = 2, compute_error = (\<lambda>metric i. 1 / 4),
        mse2psnr = (\<lambda>x. 10 - x)\<rparr>"]
    by (simp add: two)
qed

section \<open>Properties of the driver: rendering a video\<close>

lemma video_frame_small:
  "0 \<le> fst (video_render_range a) \<and> i < fst (video_render_range a) \<Longrightarrow>
   video_frame env a i =
     ([SetCameraSmoothing (video_camera_smoothing a), Render 32 32 1 i], None)"
  by (simp add: video_frame_def Let_def)

lemma video_frame_skipped:
  "\<not> (0 \<le> fst (video_render_range a) \<and> i < fst (video_render_range a)) \<Longrightarrow>
   0 \<le> snd (video_render_range a) \<and> snd (video_render_range a) < i \<Longrightarrow>
   video_frame env a i = ([SetCameraSmoothing (video_camera_smoothing a)], None)"
  by (simp add: video_frame_def Let_def)

lemma video_frame_full:
  "\<not> (0 \<le> fst (video_render_range a) \<and> i < fst (video_render_range a)) \<Longrightarrow>
   \<not> (0 \<le> snd (video_render_range a) \<and> snd (video_render_range a) < i) \<Longrightarrow>
   video_frame env a i =
     (if save_frames a
      then (case py_format env (video_output a) i of
              Inl e \<Rightarrow>
                ([SetCameraSmoothing (video_camera_smoothing a),
                  Render (py_or (width a) 1920) (py_or (height a) 1080) (video_spp a) i], Some e)
            | Inr name \<Rightarrow>
                (case py_pow2 (exposure a) of
                   Inl e \<Rightarrow>
                     ([SetCameraSmoothing (video_camera_smoothing a),
                       Render (py_or (width a) 1920) (py_or (height a) 1080) (video_spp a) i],
                      Some e)
                 | Inr scale \<Rightarrow>
                     ([SetCameraSmoothing (video_camera_smoothing a),
                       Render (py_or (width a) 1920) (py_or (height a) 1080) (video_spp a) i,
                       WriteFrame name], None)))
      else (case py_pow2 (exposure a) of
              Inl e \<Rightarrow>
                ([SetCameraSmoothing (video_camera_smoothing a),
                  Render (py_or (width a) 1920) (py_or (height a) 1080) (video_spp a) i], Some e)
            | Inr scale \<Rightarrow>
                ([SetCameraSmoothing (video_camera_smoothing a),
                  Render (py_or (width a) 1920) (py_or (height a) 1080) (video_spp a) i,
                  WriteTmp i], None)))"
  by (simp add: video_frame_def Let_def split: sum.splits)

lemma video_frame_cases:
  "\<exists>evs r. video_frame env a i = (SetCameraSmoothing (video_camera_smoothing a) # evs, r)
      \<and> filter is_smoothing evs = [] \<and> filter is_ffmpeg evs = []"
proof (cases "0 \<le> fst (video_render_range a) \<and> i < fst (video_render_range a)")
  case True
  then show ?thesis by (simp add: video_frame_small)
next
  case False
  show ?thesis
  proof (cases "0 \<le> snd (video_render_range a) \<and> snd (video_render_range a) < i")
    case True
    then show ?thesis using False by (simp add: video_frame_skipped)
  next
    case no_end: False
    show ?thesis
      using False no_end by (simp add: video_frame_full split: sum.splits)
  qed
qed

text \<open>An iteration raises nothing when the power and the format operator raise nothing.\<close>

lemma video_frame_ok:
  assumes "py_pow2 (exposure a) \<noteq> Inl OverflowError"
    and "save_frames a \<longrightarrow> (\<exists>name. py_format env (video_output a) i = Inr name)"
  shows "snd (video_frame env a i) = None"
proof -
  obtain scale where p: "py_pow2 (exposure a) = Inr scale"
    using assms(1) by (cases "exposure a") (auto simp: py_pow2_def split: if_splits)
  show ?thesis
    using assms(2) by (auto simp: video_frame_def Let_def p)
qed

lemma video_loop_ok:
  "\<forall>i \<in> set xs. snd (video_frame env a i) = None \<Longrightarrow> snd (video_loop env a xs) = None"
proof (induction xs)
  case Nil
  then show ?case by simp
next
  case (Cons i xs)
  obtain evs where f: "video_frame env a i = (evs, None)"
    using Cons.prems by (cases "video_frame env a i") auto
  have "snd (video_loop env a xs) = None" using Cons by simp
  then obtain evs' where "video_loop env a xs = (evs', None)"
    by (cases "video_loop env a xs") auto
  then show ?case using f by simp
qed

lemma video_loop_events:
  "filter is_ffmpeg (fst (video_loop env a xs)) = []
   \<and> (snd (video_loop env a xs) = None \<longrightarrow>
        fst (video_loop env a xs) = concat (map (\<lambda>i. fst (video_frame env a i)) xs)
        \<and> length (filter is_smoothing (fst (video_loop env a xs))) = length xs)"
proof (induction xs)
  case Nil
  then show ?case by simp
next
  case (Cons i xs)
  obtain evs r where f: "video_frame env a i = (SetCameraSmoothing (video_camera_smoothing a) # evs, r)"
    "filter is_smoothing evs = []" "filter is_ffmpeg evs = []"
    using video_frame_cases by blast
  obtain evs' r' where l: "video_loop env a xs = (evs', r')"
    by (cases "video_loop env a xs")
  show ?case
  proof (cases r)
    case (Some e)
    then show ?thesis using f by auto
  next
    case None
    then show ?thesis using f l Cons.IH by auto
  qed
qed

lemma upto_upt: "[0..k - 1] = map int [0..<nat k]"
proof (cases "0 \<le> k")
  case True
  then show ?thesis
  proof (induction "nat k" arbitrary: k)
    case 0
    then show ?case by simp
  next
    case (Suc n)
    then have k: "k = int n + 1" by linarith
    have "[0..int n - 1] = map int [0..<n]"
      using Suc.hyps(1) [of "int n"] by simp
    moreover have "[0..int n] = [0..int n - 1] @ [int n]"
      using upto_rec2 [of 0 "int n"] by simp
    moreover have "nat (int n + 1) = Suc n" by simp
    ultimately show ?case by (simp add: k)
  qed
next
  case False
  then show ?thesis by simp
qed

lemma py_range_upt: "k < 2 ^ 63 \<Longrightarrow> py_range k = Inr (map int [0..<nat k])"
  using upto_upt [of k] by (simp add: py_range_def)

lemma py_range_overflow: "2 ^ 63 \<le> k \<Longrightarrow> py_range k = Inl OverflowError"
  by (simp add: py_range_def)

text \<open>
  An environment for running the video block: no directory \<open>tmp\<close> is listed, and the
  format operator is Python's on the output names and indices used below. The name
  \<open>frame_%z.png\<close> has the unsupported conversion \<open>%z\<close>, for which \<open>%\<close> raises
  \<open>ValueError\<close>; \<open>f%d.png\<close> is filled with the index; a name without a conversion
  raises \<open>TypeError\<close> (line 657 is reached only by a name with a \<open>%\<close>).
\<close>

definition example_video_env :: video_env where
  "example_video_env =
     \<lparr>tmp_listed = False,
      py_format = (\<lambda>s i. if s = ''frame_%z.png'' then Inl ValueError
                          else if s = ''f%d.png'' \<and> i = 0 then Inr ''f0.png''
                          else if s = ''f%d.png'' \<and> i = 1 then Inr ''f1.png''
                          else Inl TypeError)\<rparr>"

text \<open>
  C4. Claimed: the loop iterates exactly \<open>video_n_seconds * video_fps\<close> times, every
  index after a non-negative \<open>END_FRAME\<close> is skipped entirely, and \<open>ffmpeg\<close> runs exactly
  when the output name has no \<open>%\<close>. Five runs, each with \<open>--video_camera_path cam.json\<close>:
  \<^item> with the range \<open>(3, 1)\<close> and four frames, index 2 lies after \<open>END_FRAME\<close> and is
    still rendered at 32 by 32, because the test on \<open>START_FRAME\<close> comes first;
  \<^item> with \<open>--video_fps -1\<close> the product is -1 and the loop does not iterate;
  \<^item> with \<open>--exposure 1024\<close> and two frames, \<open>2**args.exposure\<close> raises
    \<open>OverflowError\<close> after the first full-resolution render: one iteration, nothing
    written, and no \<open>ffmpeg\<close> although the output name \<open>video.mp4\<close> has no \<open>%\<close>;
  \<^item> with \<open>--video_output frame_%z.png\<close> and two frames, the format operator raises
    in the first iteration;
  \<^item> with \<open>--video_n_seconds 9223372036854775808 --video_fps 1\<close>, \<open>list(range(...))\<close>
    raises \<open>OverflowError\<close>: no iteration and no \<open>ffmpeg\<close>.
\<close>

theorem render_video_range_counterexample:
  "render_video example_video_env
     (default_args\<lparr>video_camera_path := ''cam.json'', video_fps := 4,
                    video_render_range := (3, 1)\<rparr>) =
     ([LoadCameraPath ''cam.json'', Makedirs ''tmp'',
       SetCameraSmoothing False, Render 32 32 1 0,
       SetCameraSmoothing False, Render 32 32 1 1,
       SetCameraSmoothing False, Render 32 32 1 2,
       SetCameraSmoothing False,
       Ffmpeg 4 ''video.mp4''], None)
   \<and> render_video example_video_env
       (default_args\<lparr>video_camera_path := ''cam.json'', video_fps := - 1\<rparr>) =
     ([LoadCameraPath ''cam.json'', Makedirs ''tmp'', Ffmpeg (- 1) ''video.mp4''], None)
   \<and> video_n_seconds (default_args\<lparr>video_camera_path := ''cam.json'', video_fps := - 1\<rparr>)
       * video_fps (default_args\<lparr>video_camera_path := ''cam.json'', video_fps := - 1\<rparr>) = - 1
   \<and> render_video example_video_env
       (default_args\<lparr>video_camera_path := ''cam.json'', video_fps := 2,
                      exposure := Finite 1024\<rparr>) =
     ([LoadCameraPath ''cam.json'', Makedirs ''tmp'',
       SetCameraSmoothing False, Render 1920 1080 8 0], Some OverflowError)
   \<and> CHR ''%'' \<notin> set (video_output
       (default_args\<lparr>video_camera_path := ''cam.json'', video_fps := 2,
                      exposure := Finite 1024\<rparr>))
   \<and> render_video example_video_env
       (default_args\<lparr>video_camera_path := ''cam.json'', video_fps := 2,
                      video_output := ''frame_%z.png''\<rparr>) =
     ([LoadCameraPath ''cam.json'', Makedirs ''tmp'',
       SetCameraSmoothing False, Render 1920 1080 8 0], Some ValueError)
   \<and> render_video example_video_env
       (default_args\<lparr>video_camera_path := ''cam.json'', video_fps := 1,
                      video_n_seconds := 9223372036854775808\<rparr>) =
     ([LoadCameraPath ''cam.json'', Makedirs ''tmp''], Some OverflowError)"
proof -
  have r: "py_range 4 = Inr [0, 1, 2, 3]" "py_range (- 1) = Inr []" "py_range 2 = Inr [0, 1]"
    by (simp_all add: py_range_upt eval_nat_numeral)
  have o: "py_range 9223372036854775808 = Inl OverflowError"
    by (simp add: py_range_def)
  have 1: "render_video example_video_env
     (default_args\<lparr>video_camera_path := ''cam.json'', video_fps := 4,
                    video_render_range := (3, 1)\<rparr>) =
     ([LoadCameraPath ''cam.json'', Makedirs ''tmp'',
       SetCameraSmoothing False, Render 32 32 1 0,
       SetCameraSmoothing False, Render 32 32 1 1,
       SetCameraSmoothing False, Render 32 32 1 2,
       SetCameraSmoothing False,
       Ffmpeg 4 ''video.mp4''], None)"
    by (simp add: render_video_def default_args_def example_video_env_def r
        video_frame_def save_frames_def Let_def)
  have 2: "render_video example_video_env
       (default_args\<lparr>video_camera_path := ''cam.json'', video_fps := - 1\<rparr>) =
     ([LoadCameraPath ''cam.json'', Makedirs ''tmp'', Ffmpeg (- 1) ''video.mp4''], None)"
    by (simp add: render_video_def default_args_def example_video_env_def r
        save_frames_def Let_def)
  have 3: "video_n_seconds (default_args\<lparr>video_camera_path := ''cam.json'', video_fps := - 1\<rparr>)
       * video_fps (default_args\<lparr>video_camera_path := ''cam.json'', video_fps := - 1\<rparr>) = - 1"
    by (simp add: default_args_def)
  have 4: "render_video example_video_env
       (default_args\<lparr>video_camera_path := ''cam.json'', video_fps := 2,
                      exposure := Finite 1024\<rparr>) =
     ([LoadCameraPath ''cam.json'', Makedirs ''tmp'',
       SetCameraSmoothing False, Render 1920 1080 8 0], Some OverflowError)"
    by (simp add: render_video_def default_args_def example_video_env_def r
        video_frame_def save_frames_def py_pow2_def py_or_def Let_def)
  have 5: "CHR ''%'' \<notin> set (video_output
       (default_args\<lparr>video_camera_path := ''cam.json'', video_fps := 2,
                      exposure := Finite 1024\<rparr>))"
    by (simp add: default_args_def)
  have 6: "render_video example_video_env
       (default_args\<lparr>video_camera_path := ''cam.json'', video_fps := 2,
                      video_output := ''frame_%z.png''\<rparr>) =
     ([LoadCameraPath ''cam.json'', Makedirs ''tmp'',
       SetCameraSmoothing False, Render 1920 1080 8 0], Some ValueError)"
    by (simp add: render_video_def default_args_def example_video_env_def r
        video_frame_def save_frames_def py_or_def Let_def)
  have 7: "render_video example_video_env
       (default_args\<lparr>video_camera_path := ''cam.json'', video_fps := 1,
                      video_n_seconds := 9223372036854775808\<rparr>) =
     ([LoadCameraPath ''cam.json'', Makedirs ''tmp''], Some OverflowError)"
    by (simp add: render_video_def default_args_def example_video_env_def o Let_def)
  show ?thesis using 1 2 3 4 5 6 7 by blast
qed

text \<open>
  C4, amended. With \<open>--video_camera_path\<close> given and a run that raises no exception, the
  loop iterates once for each index from 0 up to \<open>video_n_seconds * video_fps - 1\<close> (not
  at all for a product that is not positive). An index before a non-negative
  \<open>START_FRAME\<close> is rendered at 32 by 32 and nothing is written; an index that is not
  before \<open>START_FRAME\<close> and lies after a non-negative \<open>END_FRAME\<close> is neither rendered
  nor written; every other index is rendered at full resolution and, when the iteration
  raises nothing, written. \<open>ffmpeg\<close> runs exactly when the output name has no \<open>%\<close> and
  the loop has raised nothing. The run raises nothing when the product is below
  \<open>2 ^ 63\<close>, \<open>2**args.exposure\<close> does not overflow and, for an output name with a \<open>%\<close>,
  the format operator fills the name for every index of the loop.
\<close>

theorem render_video_frames:
  assumes "video_camera_path a \<noteq> []"
  shows "(snd (render_video env a) = None \<longrightarrow>
            length (filter is_smoothing (fst (render_video env a)))
              = nat (video_n_seconds a * video_fps a)
            \<and> fst (render_video env a) =
                [LoadCameraPath (video_camera_path a)]
                @ (if tmp_listed env then [Rmtree ''tmp''] else [])
                @ [Makedirs ''tmp'']
                @ concat (map (\<lambda>i. fst (video_frame env a (int i)))
                              [0..<nat (video_n_seconds a * video_fps a)])
                @ (if CHR ''%'' \<in> set (video_output a) then []
                   else [Ffmpeg (video_fps a) (video_output a)]))
       \<and> (\<forall>i. 0 \<le> fst (video_render_range a) \<and> i < fst (video_render_range a) \<longrightarrow>
              video_frame env a i =
                ([SetCameraSmoothing (video_camera_smoothing a), Render 32 32 1 i], None))
       \<and> (\<forall>i. \<not> (0 \<le> fst (video_render_range a) \<and> i < fst (video_render_range a))
              \<and> 0 \<le> snd (video_render_range a) \<and> snd (video_render_range a) < i \<longrightarrow>
              video_frame env a i = ([SetCameraSmoothing (video_camera_smoothing a)], None))
       \<and> (\<forall>i. \<not> (0 \<le> fst (video_render_range a) \<and> i < fst (video_render_range a))
              \<and> \<not> (0 \<le> snd (video_render_range a) \<and> snd (video_render_range a) < i) \<longrightarrow>
              take 2 (fst (video_frame env a i)) =
                [SetCameraSmoothing (video_camera_smoothing a),
                 Render (py_or (width a) 1920) (py_or (height a) 1080) (video_spp a) i]
              \<and> (snd (video_frame env a i) = None \<longrightarrow>
                   (\<exists>w. fst (video_frame env a i) =
                      [SetCameraSmoothing (video_camera_smoothing a),
                       Render (py_or (width a) 1920) (py_or (height a) 1080) (video_spp a) i, w]
                      \<and> (w = WriteTmp i \<or> (\<exists>name. w = WriteFrame name)))))
       \<and> (filter is_ffmpeg (fst (render_video env a)) \<noteq> [] \<longleftrightarrow>
            CHR ''%'' \<notin> set (video_output a) \<and> snd (render_video env a) = None)
       \<and> (video_n_seconds a * video_fps a < 2 ^ 63
            \<and> py_pow2 (exposure a) \<noteq> Inl OverflowError
            \<and> (CHR ''%'' \<in> set (video_output a) \<longrightarrow>
                 (\<forall>i. 0 \<le> i \<and> i < video_n_seconds a * video_fps a \<longrightarrow>
                      (\<exists>name. py_format env (video_output a) i = Inr name))) \<longrightarrow>
            snd (render_video env a) = None)"
proof -
  define n where "n = video_n_seconds a * video_fps a"
  define pre where "pre = [LoadCameraPath (video_camera_path a)]
      @ (if tmp_listed env then [Rmtree ''tmp''] else []) @ [Makedirs ''tmp'']"
  have mn: "min n (n + 1) = n" by simp
  have pre_sm: "filter is_smoothing pre = []" and pre_ff: "filter is_ffmpeg pre = []"
    by (simp_all add: pre_def)
  have 2: "video_frame env a i =
      ([SetCameraSmoothing (video_camera_smoothing a), Render 32 32 1 i], None)"
    if "0 \<le> fst (video_render_range a) \<and> i < fst (video_render_range a)" for i
    using that by (rule video_frame_small)
  have 3: "video_frame env a i = ([SetCameraSmoothing (video_camera_smoothing a)], None)"
    if "\<not> (0 \<le> fst (video_render_range a) \<and> i < fst (video_render_range a))
      \<and> 0 \<le> snd (video_render_range a) \<and> snd (video_render_range a) < i" for i
    using that video_frame_skipped [of a i env] by blast
  have 4: "take 2 (fst (video_frame env a i)) =
        [SetCameraSmoothing (video_camera_smoothing a),
         Render (py_or (width a) 1920) (py_or (height a) 1080) (video_spp a) i]
      \<and> (snd (video_frame env a i) = None \<longrightarrow>
           (\<exists>w. fst (video_frame env a i) =
              [SetCameraSmoothing (video_camera_smoothing a),
               Render (py_or (width a) 1920) (py_or (height a) 1080) (video_spp a) i, w]
              \<and> (w = WriteTmp i \<or> (\<exists>name. w = WriteFrame name))))"
    if "\<not> (0 \<le> fst (video_render_range a) \<and> i < fst (video_render_range a))
      \<and> \<not> (0 \<le> snd (video_render_range a) \<and> snd (video_render_range a) < i)" for i
    using that by (auto simp: video_frame_full split: sum.splits)
  have 156: "(snd (render_video env a) = None \<longrightarrow>
        length (filter is_smoothing (fst (render_video env a))) = nat n
        \<and> fst (render_video env a) =
            pre @ concat (map (\<lambda>i. fst (video_frame env a (int i))) [0..<nat n])
            @ (if CHR ''%'' \<in> set (video_output a) then []
               else [Ffmpeg (video_fps a) (video_output a)]))
      \<and> (filter is_ffmpeg (fst (render_video env a)) \<noteq> [] \<longleftrightarrow>
           CHR ''%'' \<notin> set (video_output a) \<and> snd (render_video env a) = None)
      \<and> (n < 2 ^ 63
           \<and> py_pow2 (exposure a) \<noteq> Inl OverflowError
           \<and> (CHR ''%'' \<in> set (video_output a) \<longrightarrow>
                (\<forall>i. 0 \<le> i \<and> i < n \<longrightarrow>
                     (\<exists>name. py_format env (video_output a) i = Inr name))) \<longrightarrow>
           snd (render_video env a) = None)"
  proof (cases "n < 2 ^ 63")
    case False
    then have "py_range n = Inl OverflowError" by (simp add: py_range_overflow)
    then have "render_video env a = (pre, Some OverflowError)"
      using assms by (simp add: render_video_def Let_def n_def [symmetric] mn pre_def)
    then show ?thesis using False pre_ff by simp
  next
    case True
    define xs where "xs = map int [0..<nat n]"
    have range: "py_range n = Inr xs"
      using True by (simp add: py_range_upt xs_def)
    obtain evs r where l: "video_loop env a xs = (evs, r)"
      by (cases "video_loop env a xs")
    have rv: "render_video env a =
        (case r of Some e \<Rightarrow> (pre @ evs, Some e)
         | None \<Rightarrow> (pre @ evs
             @ (if \<not> save_frames a then [Ffmpeg (video_fps a) (video_output a)] else []), None))"
      using assms l range
      by (simp add: render_video_def Let_def n_def [symmetric] mn pre_def split: option.splits)
    have le1: "filter is_ffmpeg evs = []"
      and le3: "r = None \<longrightarrow> evs = concat (map (\<lambda>i. fst (video_frame env a i)) xs)"
      and le4: "r = None \<longrightarrow> length (filter is_smoothing evs) = length xs"
      using video_loop_events [of env a xs] unfolding l fst_conv snd_conv by blast+
    have sn: "snd (render_video env a) = None \<longleftrightarrow> r = None"
      using rv by (cases r) simp_all
    have 1: "length (filter is_smoothing (fst (render_video env a))) = nat n
        \<and> fst (render_video env a) =
            pre @ concat (map (\<lambda>i. fst (video_frame env a (int i))) [0..<nat n])
            @ (if CHR ''%'' \<in> set (video_output a) then []
               else [Ffmpeg (video_fps a) (video_output a)])"
      if "snd (render_video env a) = None"
    proof -
      have r: "r = None" using that sn by simp
      have evs: "evs = concat (map (\<lambda>i. fst (video_frame env a i)) xs)"
        "length (filter is_smoothing evs) = length xs"
        using le3 le4 r by blast+
      have "concat (map (\<lambda>i. fst (video_frame env a i)) xs) =
          concat (map (\<lambda>i. fst (video_frame env a (int i))) [0..<nat n])"
        by (simp add: xs_def comp_def)
      moreover have "length xs = nat n" by (simp add: xs_def)
      ultimately show ?thesis
        using evs r rv pre_sm by (simp add: save_frames_def)
    qed
    have 5: "filter is_ffmpeg (fst (render_video env a)) \<noteq> [] \<longleftrightarrow>
        CHR ''%'' \<notin> set (video_output a) \<and> snd (render_video env a) = None"
    proof (cases r)
      case (Some e)
      then show ?thesis using rv le1 pre_ff by simp
    next
      case None
      then show ?thesis using rv le1 pre_ff by (simp add: save_frames_def)
    qed
    have 6: "snd (render_video env a) = None"
      if p: "py_pow2 (exposure a) \<noteq> Inl OverflowError"
        and f: "CHR ''%'' \<in> set (video_output a) \<longrightarrow>
          (\<forall>i. 0 \<le> i \<and> i < n \<longrightarrow> (\<exists>name. py_format env (video_output a) i = Inr name))"
    proof -
      have "\<forall>i \<in> set xs. snd (video_frame env a i) = None"
      proof
        fix i
        assume "i \<in> set xs"
        then have "0 \<le> i \<and> i < n" by (auto simp: xs_def)
        then have "save_frames a \<longrightarrow> (\<exists>name. py_format env (video_output a) i = Inr name)"
          using f by (simp add: save_frames_def)
        then show "snd (video_frame env a i) = None"
          using video_frame_ok [OF p] by blast
      qed
      then have "snd (video_loop env a xs) = None" by (rule video_loop_ok)
      then show ?thesis using sn l by simp
    qed
    show ?thesis using 1 5 6 by blast
  qed
  show ?thesis
    using 156 2 3 4 unfolding n_def pre_def by (intro conjI allI impI) auto
qed

theorem render_video_frames_witness:
  "video_camera_path (default_args\<lparr>video_camera_path := ''cam.json'', video_fps := 3,
      video_render_range := (1, 1)\<rparr>) \<noteq> []
   \<and> render_video example_video_env
       (default_args\<lparr>video_camera_path := ''cam.json'', video_fps := 3,
                      video_render_range := (1, 1)\<rparr>) =
     ([LoadCameraPath ''cam.json'', Makedirs ''tmp'',
       SetCameraSmoothing False, Render 32 32 1 0,
       SetCameraSmoothing False, Render 1920 1080 8 1, WriteTmp 1,
       SetCameraSmoothing False,
       Ffmpeg 3 ''video.mp4''], None)
   \<and> length (filter is_smoothing (fst (render_video example_video_env
       (default_args\<lparr>video_camera_path := ''cam.json'', video_fps := 3,
                      video_render_range := (1, 1)\<rparr>)))) = 3
   \<and> render_video example_video_env
       (default_args\<lparr>video_camera_path := ''cam.json'', video_fps := 2,
                      video_output := ''f%d.png''\<rparr>) =
     ([LoadCameraPath ''cam.json'', Makedirs ''tmp'',
       SetCameraSmoothing False, Render 1920 1080 8 0, WriteFrame ''f0.png'',
       SetCameraSmoothing False, Render 1920 1080 8 1, WriteFrame ''f1.png''], None)
   \<and> filter is_ffmpeg (fst (render_video example_video_env
       (default_args\<lparr>video_camera_path := ''cam.json'', video_fps := 2,
                      video_output := ''f%d.png''\<rparr>))) = []
   \<and> py_pow2 (exposure (default_args\<lparr>video_camera_path := ''cam.json'', video_fps := 2,
                      video_output := ''f%d.png''\<rparr>)) = Inr (Finite 1)
   \<and> snd (render_video example_video_env
       (default_args\<lparr>video_camera_path := ''cam.json'', video_fps := 2,
                      video_output := ''f%d.png''\<rparr>)) = None"
proof -
  define a where "a = default_args\<lparr>video_camera_path := ''cam.json'', video_fps := 3,
      video_render_range := (1, 1)\<rparr>"
  define b where "b = default_args\<lparr>video_camera_path := ''cam.json'', video_fps := 2,
      video_output := ''f%d.png''\<rparr>"
  have p: "video_camera_path a \<noteq> []" by (simp add: a_def)
  have q: "video_camera_path b \<noteq> []" by (simp add: b_def)
  have r: "py_range 3 = Inr [0, 1, 2]" "py_range 2 = Inr [0, 1]"
    by (simp_all add: py_range_upt eval_nat_numeral)
  have rv: "render_video example_video_env a =
     ([LoadCameraPath ''cam.json'', Makedirs ''tmp'',
       SetCameraSmoothing False, Render 32 32 1 0,
       SetCameraSmoothing False, Render 1920 1080 8 1, WriteTmp 1,
       SetCameraSmoothing False,
       Ffmpeg 3 ''video.mp4''], None)"
    by (simp add: a_def render_video_def default_args_def example_video_env_def r
        video_frame_def save_frames_def py_pow2_def py_or_def Let_def)
  have rb: "render_video example_video_env b =
     ([LoadCameraPath ''cam.json'', Makedirs ''tmp'',
       SetCameraSmoothing False, Render 1920 1080 8 0, WriteFrame ''f0.png'',
       SetCameraSmoothing False, Render 1920 1080 8 1, WriteFrame ''f1.png''], None)"
    by (simp add: b_def render_video_def default_args_def example_video_env_def r
        video_frame_def save_frames_def py_pow2_def py_or_def Let_def)
  have n: "nat (video_n_seconds a * video_fps a) = 3"
    by (simp add: a_def default_args_def)
  have sn: "snd (render_video example_video_env a) = None" using rv by simp
  have c1: "snd (render_video example_video_env a) = None \<longrightarrow>
      length (filter is_smoothing (fst (render_video example_video_env a)))
        = nat (video_n_seconds a * video_fps a)"
    using render_video_frames [OF p, of example_video_env] by blast
  have "length (filter is_smoothing (fst (render_video example_video_env a)))
      = nat (video_n_seconds a * video_fps a)"
    using c1 sn by blast
  then have len: "length (filter is_smoothing (fst (render_video example_video_env a))) = 3"
    using n by simp
  have c5: "filter is_ffmpeg (fst (render_video example_video_env b)) \<noteq> [] \<longleftrightarrow>
      CHR ''%'' \<notin> set (video_output b) \<and> snd (render_video example_video_env b) = None"
    using render_video_frames [OF q, of example_video_env] by blast
  have "CHR ''%'' \<in> set (video_output b)" by (simp add: b_def)
  then have ff: "filter is_ffmpeg (fst (render_video example_video_env b)) = []"
    using c5 by blast
  have pw: "py_pow2 (exposure b) = Inr (Finite 1)"
    by (simp add: b_def default_args_def py_pow2_def)
  have c6: "video_n_seconds b * video_fps b < 2 ^ 63
      \<and> py_pow2 (exposure b) \<noteq> Inl OverflowError
      \<and> (CHR ''%'' \<in> set (video_output b) \<longrightarrow>
           (\<forall>i. 0 \<le> i \<and> i < video_n_seconds b * video_fps b \<longrightarrow>
                (\<exists>name. py_format example_video_env (video_output b) i = Inr name))) \<longrightarrow>
      snd (render_video example_video_env b) = None"
    using render_video_frames [OF q, of example_video_env] by blast
  have h1: "video_n_seconds b * video_fps b < 2 ^ 63"
    by (simp add: b_def default_args_def)
  have h2: "py_pow2 (exposure b) \<noteq> Inl OverflowError"
    using pw by simp
  have h3: "\<exists>name. py_format example_video_env (video_output b) i = Inr name"
    if "0 \<le> i \<and> i < video_n_seconds b * video_fps b" for i
  proof -
    have "i = 0 \<or> i = 1" using that by (auto simp: b_def default_args_def)
    then show ?thesis by (auto simp: b_def example_video_env_def)
  qed
  have ok: "snd (render_video example_video_env b) = None"
    using c6 h1 h2 h3 by blast
  show ?thesis using p rv len rb ff pw ok unfolding a_def b_def by blast
qed
section \<open>Properties of the driver: the pose of an iteration\<close>

lemma tracked_pose_constants:
  assumes "camera2tool c1 = camera2tool c2" and "tool2camera c1 = tool2camera c2"
    and "world_center c1 = world_center c2" and "post_avglen c1 = post_avglen c2"
  shows "tracked_pose np c1 T = tracked_pose np c2 T"
  unfolding tracked_pose_def assms by (rule refl)

lemma new_events_append: "events s' = events s @ E \<Longrightarrow> new_events s s' = E"
  by (simp add: new_events_def)

lemma frame_body_pose_view:
  "pose_view (new_events s (snd (frame_body np a c n f s))) = expected_pose_events np a c f"
proof -
  obtain E where E: "events (snd (frame_body np a c n f s)) = events s @ E"
    "pose_view E = expected_pose_events np a c f"
    using frame_body_events [of np a c n f s] by blast
  show ?thesis using new_events_append [OF E(1)] E(2) by simp
qed

lemma frame_body_raise:
  assumes on: "gui a \<and> ndi a" and smp: "tracking0 f = Tracked T"
    and tp: "tracked_pose np c T = Inl e"
  shows "fst (frame_body np a c n f s) = Raise e"
proof -
  define s1 where "s1 = (if \<not> pressnum_initialized s
      then (emit [SetPressnum [0, 0, 0]] s)\<lparr>pressnum_initialized := True\<rparr> else s)"
  have nb: "ndi_block np a c f s1 = (emit [GetFrame] s1, Some e)"
    using on smp tp by (simp add: ndi_block_def Let_def sample_block_Inl)
  show ?thesis
    using nb by (simp add: frame_body_def Let_def s1_def)
qed

lemma frame_body_transform_matrix:
  assumes on: "gui a \<and> ndi a" and smp: "tracking0 f = Tracked T"
    and tp: "tracked_pose np c T = Inr tm"
  shows "transform_matrix (snd (frame_body np a c n f s)) = Some tm
       \<and> (\<forall>e. fst (frame_body np a c n f s) \<noteq> Raise e)"
proof -
  define s1 where "s1 = (if \<not> pressnum_initialized s
      then (emit [SetPressnum [0, 0, 0]] s)\<lparr>pressnum_initialized := True\<rparr> else s)"
  obtain s2 where sb: "sample_block np a c T f (emit [GetFrame] s1) = Inr s2"
    and tm: "transform_matrix s2 = Some tm"
    using sample_block_Inr [OF tp, of a f "emit [GetFrame] s1"] by blast
  have nb: "ndi_block np a c f s1 = (s2, None)"
    using on smp sb by (simp add: ndi_block_def Let_def)
  define s3 where "s3 = (if want_repl f then emit [Repl] s2 else s2)"
  have tm3: "transform_matrix s3 = Some tm"
    using tm by (simp add: s3_def transform_matrix_emit)
  have fb: "frame_body np a c n f s =
      (if n \<le> training_step f
       then (if gui a then (Continue, progress_block f (emit [SetShallTrain False] s3))
             else (Break, s3))
       else (Continue, progress_block f s3))"
    using nb by (simp add: frame_body_def Let_def s1_def s3_def)
  show ?thesis
    using tm3 by (simp add: fb transform_matrix_progress_block transform_matrix_emit)
qed

text \<open>The pose assignments and the end of an iteration that receives a sample.\<close>

lemma frame_body_sample:
  assumes on: "gui a \<and> ndi a" and smp: "tracking0 f = Tracked T"
  shows "case tracked_pose np c T of
           Inl e \<Rightarrow>
             fst (frame_body np a c n f s) = Raise e
             \<and> pose_view (new_events s (snd (frame_body np a c n f s))) = []
         | Inr tm \<Rightarrow>
             transform_matrix (snd (frame_body np a c n f s)) = Some tm
             \<and> pose_view (new_events s (snd (frame_body np a c n f s))) =
                 pose_assignments np tm"
proof -
  have v: "pose_view (new_events s (snd (frame_body np a c n f s))) =
      (case tracked_pose np c T of Inl e \<Rightarrow> [] | Inr tm \<Rightarrow> pose_assignments np tm)"
    using on smp by (simp add: frame_body_pose_view expected_pose_events_def)
  show ?thesis
  proof (cases "tracked_pose np c T")
    case (Inl e)
    then show ?thesis using frame_body_raise [OF on smp Inl] v by simp
  next
    case (Inr tm)
    then show ?thesis using frame_body_transform_matrix [OF on smp Inr] v by simp
  qed
qed

subsection \<open>4 by 4 arrays\<close>



lemma upt_4: "[0..<4] = [0, 1, 2, 3]"
  by (simp add: upt_rec)

lemma flip_matrix_explicit:
  assumes "linalg_inv np m =
    Inr [[a0, a1, a2, a3], [b0, b1, b2, b3], [c0, c1, c2, c3], [d0, d1, d2, d3]]"
  shows "flip_matrix np m =
    Inr [[b0, - b1, - b2, b3], [a0, - a1, - a2, a3], [- c0, c1, c2, - c3], [d0, d1, d2, d3]]"
  using assms
  by (simp add: flip_matrix_def Let_def scale_rows_col_def take_rows_def scale_row_def upt_4)


lemma scale_translation_explicit:
  "scale_rows_col [[a0, a1, a2, a3], [b0, b1, b2, b3], [c0, c1, c2, c3], [d0, d1, d2, d3]] 0 3 3 k
     = [[a0, a1, a2, a3 * k], [b0, b1, b2, b3 * k], [c0, c1, c2, c3 * k], [d0, d1, d2, d3]]"
  "spec_scale_translation k [[a0, a1, a2, a3], [b0, b1, b2, b3], [c0, c1, c2, c3], [d0, d1, d2, d3]]
     = [[a0, a1, a2, a3 * k], [b0, b1, b2, b3 * k], [c0, c1, c2, c3 * k], [d0, d1, d2, d3]]"
  by (simp_all add: scale_rows_col_def spec_scale_translation_def upt_4)


subsection \<open>Inputs used to run an iteration\<close>

text \<open>
  A pose that translates by \<open>(1, 2, 3)\<close> and its inverse; a \<open>world_center\<close> whose last row
  is not that of a homogeneous transform, and its inverse.
\<close>

definition example_tracking :: mat where
  "example_tracking = [[1, 0, 0, 1], [0, 1, 0, 2], [0, 0, 1, 3], [0, 0, 0, 1]]"

definition example_tracking_inv :: mat where
  "example_tracking_inv = [[1, 0, 0, - 1], [0, 1, 0, - 2], [0, 0, 1, - 3], [0, 0, 0, 1]]"

definition example_skew :: mat where
  "example_skew = [[1, 0, 0, 0], [0, 1, 0, 0], [0, 0, 1, 0], [0, 1, 0, 1]]"

definition example_skew_inv :: mat where
  "example_skew_inv = [[1, 0, 0, 0], [0, 1, 0, 0], [0, 0, 1, 0], [0, - 1, 0, 1]]"

text \<open>
  A \<open>numpy\<close> whose trigonometric functions are the real ones and whose inverse is known
  for the matrices that the runs below invert.
\<close>

definition example_numpy_trig :: numpy where
  "example_numpy_trig =
     \<lparr>linalg_inv = (\<lambda>m. if m = identity4 then Inr identity4
                         else if m = example_tracking then Inr example_tracking_inv
                         else if m = example_tracking_inv then Inr example_tracking
                         else if m = example_skew then Inr example_skew_inv
                         else Inl LinAlgError),
      np_deg2rad = (\<lambda>x. x * pi / 180), np_cos = cos, np_sin = sin\<rparr>"

definition example_calib :: calib where
  "example_calib =
     \<lparr>tool2camera = identity4, camera2tool = identity4, world_center = identity4,
      post_avglen = [1, 3], base_pose = identity4\<rparr>"

text \<open>The arguments \<open>--gui --ndi\<close>.\<close>

definition example_ndi_args :: args where
  "example_ndi_args = default_args\<lparr>gui := True, ndi := True\<rparr>"

text \<open>
  A state late in a run (a pose from an earlier iteration, presses recorded), and the
  inputs of an iteration in which the space bar is pressed.
\<close>

definition example_late_state :: loop_state where
  "example_late_state =
     initial_state\<lparr>pressnum_initialized := True,
                   transform_matrix := Some identity4,
                   j := 3, press_count := 3, start_time := Some 1,
                   events := [Frame, GetFrame]\<rparr>"

definition example_busy_frame :: "sample \<Rightarrow> frame_in" where
  "example_busy_frame smp =
     (example_frame smp)\<lparr>timer := 2, pressed_space := True, pressed_space_again := True,
                          clock := (\<lambda>n. 9), want_repl := True, training_step := 20\<rparr>"

lemma example_shapes:
  "mat4 identity4" "mat4 example_tracking" "mat4 example_tracking_inv"
  "mat4 example_skew" "mat4 example_skew_inv"
  by (simp_all add: mat4_def identity4_def example_tracking_def example_tracking_inv_def
      example_skew_def example_skew_inv_def)

lemma example_inv_keeps_shape: "inv_keeps_shape example_numpy_trig"
  unfolding inv_keeps_shape_def example_numpy_trig_def
  using example_shapes by (auto split: if_splits)

lemma example_matmul:
  "matmul identity4 example_tracking_inv = example_tracking_inv"
  "matmul example_tracking_inv identity4 = example_tracking_inv"
  "matmul identity4 identity4 = identity4"
  "matmul identity4 example_skew = example_skew"
  "matmul example_skew identity4 = example_skew"
  by (simp_all add: matmul_def identity4_def example_tracking_inv_def example_skew_def)

lemma example_inverses:
  "linalg_inv example_numpy_trig identity4 = Inr identity4"
  "linalg_inv example_numpy_trig example_tracking = Inr example_tracking_inv"
  "linalg_inv example_numpy_trig example_tracking_inv = Inr example_tracking"
  "linalg_inv example_numpy_trig example_skew = Inr example_skew_inv"
  by (simp_all add: example_numpy_trig_def identity4_def example_tracking_def
      example_tracking_inv_def example_skew_def)

lemma example_pose:
  "tracked_pose example_numpy_trig (example_calib\<lparr>base_pose := b\<rparr>) example_tracking =
     Inr [[0, - 1, 0, 4], [1, 0, 0, 2], [0, 0, 1, - 6], [0, 0, 0, 1]]"
proof -
  have "flip_matrix example_numpy_trig example_tracking_inv =
      Inr [[0, - 1, 0, 2], [1, 0, 0, 1], [0, 0, 1, - 3], [0, 0, 0, 1]]"
    using flip_matrix_explicit [of example_numpy_trig example_tracking_inv
        1 0 0 1 0 1 0 2 0 0 1 3 0 0 0 1]
    by (simp add: example_inverses example_tracking_def)
  then show ?thesis
    by (simp add: tracked_pose_def Let_def example_calib_def example_inverses example_matmul
        py_truediv_def scale_translation_explicit)
qed


subsection \<open>The claims on the pose\<close>




text \<open>
  C6. Take two iterations, of one run or of two: any two states of the script's
  variables, any two sets of inputs other than the sample, any two training targets, and
  arguments and constants that agree on \<open>--gui\<close> and \<open>--ndi\<close> (both given) and on
  \<open>camera2tool\<close>, \<open>tool2camera\<close>, \<open>world_center\<close> and \<open>post_avglen\<close>. When both receive the
  same tracking matrix, they assign the same values to \<open>testbed.look_at\<close>,
  \<open>testbed.view_dir\<close> and \<open>testbed.up_dir\<close>, in the same order, and they end with the same
  \<open>transform_matrix\<close>; or both raise the same exception of the pose computation and
  assign nothing.
\<close>

theorem pose_stateless:
  assumes "camera2tool c1 = camera2tool c2" and "tool2camera c1 = tool2camera c2"
    and "world_center c1 = world_center c2" and "post_avglen c1 = post_avglen c2"
    and "gui a1 \<and> ndi a1" and "gui a2 \<and> ndi a2"
    and "tracking0 f1 = Tracked T" and "tracking0 f2 = Tracked T"
    and "mat4 T" and "inv_keeps_shape np" and "well_shaped a1 c1" and "well_shaped a2 c2"
  shows "pose_view (new_events s1 (snd (frame_body np a1 c1 n1 f1 s1))) =
         pose_view (new_events s2 (snd (frame_body np a2 c2 n2 f2 s2)))
       \<and> (case tracked_pose np c1 T of
            Inl e \<Rightarrow>
              fst (frame_body np a1 c1 n1 f1 s1) = Raise e
              \<and> fst (frame_body np a2 c2 n2 f2 s2) = Raise e
              \<and> pose_view (new_events s1 (snd (frame_body np a1 c1 n1 f1 s1))) = []
          | Inr tm \<Rightarrow>
              transform_matrix (snd (frame_body np a1 c1 n1 f1 s1)) = Some tm
              \<and> transform_matrix (snd (frame_body np a2 c2 n2 f2 s2)) = Some tm
              \<and> pose_view (new_events s1 (snd (frame_body np a1 c1 n1 f1 s1))) =
                  pose_assignments np tm)"
proof -
  have tp: "tracked_pose np c2 T = tracked_pose np c1 T"
    using tracked_pose_constants [OF assms(1-4)] by simp
  note i1 = frame_body_sample [OF assms(5,7), of np c1 n1 s1]
  note i2 = frame_body_sample [OF assms(6,8), of np c2 n2 s2]
  show ?thesis
  proof (cases "tracked_pose np c1 T")
    case (Inl e)
    then show ?thesis using i1 i2 tp by simp
  next
    case (Inr tm)
    then show ?thesis using i1 i2 tp by simp
  qed
qed

theorem pose_stateless_witness:
  "gui example_ndi_args \<and> ndi example_ndi_args
   \<and> gui (example_ndi_args\<lparr>evaluation := True\<rparr>) \<and> ndi (example_ndi_args\<lparr>evaluation := True\<rparr>)
   \<and> tracking0 (example_frame (Tracked example_tracking)) = Tracked example_tracking
   \<and> tracking0 (example_busy_frame (Tracked example_tracking)) = Tracked example_tracking
   \<and> mat4 example_tracking \<and> inv_keeps_shape example_numpy_trig
   \<and> well_shaped example_ndi_args example_calib
   \<and> well_shaped (example_ndi_args\<lparr>evaluation := True\<rparr>)
        (example_calib\<lparr>base_pose := example_tracking\<rparr>)
   \<and> pose_view (new_events initial_state
        (snd (frame_body example_numpy_trig example_ndi_args example_calib 35000
           (example_frame (Tracked example_tracking)) initial_state))) =
     pose_view (new_events example_late_state
        (snd (frame_body example_numpy_trig (example_ndi_args\<lparr>evaluation := True\<rparr>)
           (example_calib\<lparr>base_pose := example_tracking\<rparr>) 10
           (example_busy_frame (Tracked example_tracking)) example_late_state)))
   \<and> transform_matrix (snd (frame_body example_numpy_trig example_ndi_args example_calib 35000
        (example_frame (Tracked example_tracking)) initial_state)) =
       Some [[0, - 1, 0, 4], [1, 0, 0, 2], [0, 0, 1, - 6], [0, 0, 0, 1]]
   \<and> transform_matrix (snd (frame_body example_numpy_trig (example_ndi_args\<lparr>evaluation := True\<rparr>)
        (example_calib\<lparr>base_pose := example_tracking\<rparr>) 10
        (example_busy_frame (Tracked example_tracking)) example_late_state)) =
       Some [[0, - 1, 0, 4], [1, 0, 0, 2], [0, 0, 1, - 6], [0, 0, 0, 1]]
   \<and> transform_matrix example_late_state = Some identity4"
proof -
  define a2 where "a2 = example_ndi_args\<lparr>evaluation := True\<rparr>"
  define c2 where "c2 = example_calib\<lparr>base_pose := example_tracking\<rparr>"
  have k: "camera2tool example_calib = camera2tool c2" "tool2camera example_calib = tool2camera c2"
    "world_center example_calib = world_center c2" "post_avglen example_calib = post_avglen c2"
    by (simp_all add: c2_def)
  have on1: "gui example_ndi_args \<and> ndi example_ndi_args"
    by (simp add: example_ndi_args_def)
  have on2: "gui a2 \<and> ndi a2"
    by (simp add: a2_def example_ndi_args_def)
  have smp1: "tracking0 (example_frame (Tracked example_tracking)) = Tracked example_tracking"
    by (simp add: example_frame_def)
  have smp2: "tracking0 (example_busy_frame (Tracked example_tracking)) = Tracked example_tracking"
    by (simp add: example_busy_frame_def example_frame_def)
  have ws1: "well_shaped example_ndi_args example_calib"
    using example_shapes(1) by (simp add: well_shaped_def example_calib_def)
  have ws2: "well_shaped a2 c2"
    using example_shapes(1,2) by (simp add: well_shaped_def example_calib_def c2_def)
  have tp: "tracked_pose example_numpy_trig example_calib example_tracking =
      Inr [[0, - 1, 0, 4], [1, 0, 0, 2], [0, 0, 1, - 6], [0, 0, 0, 1]]"
    using example_pose [of "base_pose example_calib"] by simp
  note th = pose_stateless [OF k on1 on2 smp1 smp2 example_shapes(2) example_inv_keeps_shape
      ws1 ws2, of initial_state 35000 example_late_state 10]
  have 1: "pose_view (new_events initial_state
        (snd (frame_body example_numpy_trig example_ndi_args example_calib 35000
           (example_frame (Tracked example_tracking)) initial_state))) =
     pose_view (new_events example_late_state
        (snd (frame_body example_numpy_trig a2 c2 10
           (example_busy_frame (Tracked example_tracking)) example_late_state)))"
    using th by blast
  have 2: "transform_matrix (snd (frame_body example_numpy_trig example_ndi_args example_calib
        35000 (example_frame (Tracked example_tracking)) initial_state)) =
       Some [[0, - 1, 0, 4], [1, 0, 0, 2], [0, 0, 1, - 6], [0, 0, 0, 1]]
     \<and> transform_matrix (snd (frame_body example_numpy_trig a2 c2 10
        (example_busy_frame (Tracked example_tracking)) example_late_state)) =
       Some [[0, - 1, 0, 4], [1, 0, 0, 2], [0, 0, 1, - 6], [0, 0, 0, 1]]"
    using th unfolding tp by simp
  have 3: "transform_matrix example_late_state = Some identity4"
    by (simp add: example_late_state_def)
  show ?thesis
    using on1 on2 smp1 smp2 example_shapes(2) example_inv_keeps_shape ws1 ws2 1 2 3
    unfolding a2_def c2_def by blast
qed


end
